theory Spec2Isabelle
  imports Complex_Main "HOL-Library.Sublist"
begin

section \<open>Speaker calibration session: data model\<close>

text \<open>
  The development follows \<^verbatim>\<open>libtascar/src/calibsession.cc\<close>. The C++ types
  \<^verbatim>\<open>float\<close> and \<^verbatim>\<open>double\<close> are idealised as \<^typ>\<open>real\<close>: \<^verbatim>\<open>pow(10.0, x)\<close> is
  \<^term>\<open>10 powr x\<close>, \<^verbatim>\<open>log10(x)\<close> is \<^term>\<open>log 10 x\<close>, and the narrowing cast
  \<^verbatim>\<open>(float)\<close> is the identity. Rounding, infinities and NaN are therefore outside
  the model. Reading a \<^verbatim>\<open>std::vector\<close> outside its bounds is undefined behaviour in
  C++; the model stops there with the error \<open>Undefined\<close>. A thrown \<^verbatim>\<open>TASCAR::ErrMsg\<close> is
  the error \<open>ErrMsg\<close> with the message text, a failure to load a document is
  \<open>IOError\<close>, and a loop that does not return is \<open>Diverges\<close>.
\<close>

datatype error = ErrMsg string | IOError string | Undefined | Diverges

type_synonym pos_t = "real \<times> real \<times> real"

record spk_eq_param_t =
  fmin :: real
  fmax :: real
  duration :: real
  prewait :: real
  reflevel :: real
  bandsperoctave :: real
  bandoverlap :: real
  max_eqstages :: nat
  issub :: bool

text \<open>One speaker of a layout; \<open>'f\<close> is the state of its parametric equaliser
  (\<^verbatim>\<open>multiband_pareq_t\<close>, declared outside this file).\<close>

record 'f spk_descriptor =
  unitvector :: pos_t
  gain :: real
  eq :: 'f
  eqfreq :: "real list"
  eqgain :: "real list"
  eqstages :: nat

text \<open>\<^verbatim>\<open>spk_array_t\<close> is a vector of speakers (\<open>spk\<close>) that owns a second vector \<open>subs\<close>.\<close>

record 'f spk_array_t =
  spk :: "'f spk_descriptor list"
  subs :: "'f spk_descriptor list"

record src_object_t =
  src_mute :: bool
  dlocation :: pos_t

record 'f receiver_t =
  rec_mute :: bool
  caliblevel :: real
  diffusegain :: real
  spkpos :: "'f spk_array_t"

record 'f calibsession_t =
  gainmodified :: bool
  levelsrecorded :: bool
  calibrated :: bool
  calibrated_diff :: bool
  startlevel :: real
  startdiffgain :: real
  delta :: real
  delta_diff :: real
  spkname :: string
  spk_file :: "'f spk_array_t"
  par_speaker :: spk_eq_param_t
  par_sub :: spk_eq_param_t
  refport :: "string list"
  lmin :: real
  lmax :: real
  lmean :: real
  calibfor :: string
  levels :: "real list"
  sublevels :: "real list"
  levelsfrg :: "real list"
  sublevelsfrg :: "real list"
  fcomp_bb :: nat
  fcomp_sub :: nat
  vF :: "real list"
  vFsub :: "real list"
  vGains :: "real list list"
  vGainsSub :: "real list list"
  src_bb :: src_object_t
  src_subw :: src_object_t
  diff_mute :: bool
  rec_nsp :: "'f receiver_t"
  rec_spec :: "'f receiver_t"

section \<open>Calibration level and diffuse gain\<close>

definition get_caliblevel :: "'f calibsession_t \<Rightarrow> real" where
  "get_caliblevel s = 20 * log 10 (caliblevel (rec_spec s) * 50000)"

definition get_diffusegain :: "'f calibsession_t \<Rightarrow> real" where
  "get_diffusegain s = 20 * log 10 (diffusegain (rec_spec s))"

definition inc_caliblevel :: "real \<Rightarrow> 'f calibsession_t \<Rightarrow> 'f calibsession_t" where
  "inc_caliblevel dl s =
     (let s1 = s\<lparr>gainmodified := True\<rparr>;
          s2 = s1\<lparr>delta := delta s1 + dl\<rparr>;
          newlevel_pa = (2 / 100000) * 10 powr (0.05 * (startlevel s2 + delta s2))
      in s2\<lparr>rec_nsp := (rec_nsp s2)\<lparr>caliblevel := newlevel_pa\<rparr>,
             rec_spec := (rec_spec s2)\<lparr>caliblevel := newlevel_pa\<rparr>\<rparr>)"

definition inc_diffusegain :: "real \<Rightarrow> 'f calibsession_t \<Rightarrow> 'f calibsession_t" where
  "inc_diffusegain dl s =
     (let s1 = s\<lparr>gainmodified := True\<rparr>;
          s2 = s1\<lparr>delta_diff := delta_diff s1 + dl\<rparr>;
          g = 10 powr (0.05 * (startdiffgain s2 + delta_diff s2))
      in s2\<lparr>rec_nsp := (rec_nsp s2)\<lparr>diffusegain := g\<rparr>,
             rec_spec := (rec_spec s2)\<lparr>diffusegain := g\<rparr>\<rparr>)"


section \<open>Splitting strings\<close>

text \<open>\<^verbatim>\<open>std::string::find\<close> from position 0: the first index at which the
  delimiter occurs, \<open>None\<close> for \<^verbatim>\<open>npos\<close>.\<close>

fun string_find :: "string \<Rightarrow> string \<Rightarrow> nat option" where
  "string_find s d =
     (if prefix d s then Some 0
      else (case s of [] \<Rightarrow> None | c # cs \<Rightarrow> map_option Suc (string_find cs d)))"

declare string_find.simps [simp del]

text \<open>The \<^verbatim>\<open>while\<close> loop of \<^verbatim>\<open>string_token\<close>. With an empty delimiter the C++
  loop finds position 0 forever and erases nothing, so the loop is a partial function.\<close>

partial_function (option) string_token_loop ::
  "string \<Rightarrow> string \<Rightarrow> string list \<Rightarrow> string list option" where
  "string_token_loop s delimiter rv =
     (case string_find s delimiter of
        None \<Rightarrow> Some (rv @ [s])
      | Some pos \<Rightarrow>
          string_token_loop (drop (pos + length delimiter) s) delimiter (rv @ [take pos s]))"

definition string_token :: "string \<Rightarrow> string \<Rightarrow> string list option" where
  "string_token s delimiter = string_token_loop s delimiter []"

section \<open>Documents\<close>

text \<open>An XML element: its name, its attributes in document order, its children.
  \<^verbatim>\<open>set_attribute\<close> overwrites an attribute or appends it; \<^verbatim>\<open>get_attribute\<close>
  yields the empty string for a missing attribute.\<close>

datatype xml_element =
  Element (get_element_name: string) (attributes: "(string \<times> string) list")
          (children: "xml_element list")

fun set_attr :: "string \<Rightarrow> string \<Rightarrow> (string \<times> string) list \<Rightarrow> (string \<times> string) list" where
  "set_attr k v [] = [(k, v)]"
| "set_attr k v (p # ps) = (if fst p = k then (k, v) # ps else p # set_attr k v ps)"

definition set_attribute :: "string \<Rightarrow> string \<Rightarrow> xml_element \<Rightarrow> xml_element" where
  "set_attribute k v e =
     Element (get_element_name e) (set_attr k v (attributes e)) (children e)"

definition get_attribute :: "string \<Rightarrow> xml_element \<Rightarrow> string" where
  "get_attribute k e = (case map_of (attributes e) k of None \<Rightarrow> [] | Some v \<Rightarrow> v)"

definition add_child :: "xml_element \<Rightarrow> xml_element \<Rightarrow> xml_element" where
  "add_child c e = Element (get_element_name e) (attributes e) (children e @ [c])"

text \<open>\<^verbatim>\<open>find_or_add_child(name)\<close> followed by changes to the child that was found or
  added: \<open>f\<close> is applied to the first child of that name, or to a new empty one
  appended to the children.\<close>

fun modify_first_child ::
  "string \<Rightarrow> (xml_element \<Rightarrow> xml_element) \<Rightarrow> xml_element list \<Rightarrow> xml_element list" where
  "modify_first_child n f [] = [f (Element n [] [])]"
| "modify_first_child n f (c # cs) =
     (if get_element_name c = n then f c # cs else c # modify_first_child n f cs)"

definition find_or_add_child ::
  "string \<Rightarrow> (xml_element \<Rightarrow> xml_element) \<Rightarrow> xml_element \<Rightarrow> xml_element" where
  "find_or_add_child n f e =
     Element (get_element_name e) (attributes e) (modify_first_child n f (children e))"

definition get_children :: "string \<Rightarrow> xml_element \<Rightarrow> xml_element list" where
  "get_children n e = filter (\<lambda>c. get_element_name c = n) (children e)"

type_synonym files = "string \<Rightarrow> xml_element option"

section \<open>Scenes and collaborators outside this file\<close>

text \<open>What a receiver plugin is: a speaker-based one owns a speaker array, and the
  \<^verbatim>\<open>dynamic_cast\<close> to \<^verbatim>\<open>receivermod_base_speaker_t\<close> succeeds exactly for those.\<close>

datatype 'f libdata = Speaker_based "'f spk_array_t" | Other_receiver

record 'f receivermod_object =
  rm_mute :: bool
  rm_caliblevel :: real
  rm_diffusegain :: real
  rm_libdata :: "'f libdata"

record 'f scene_t =
  source_objects :: "src_object_t list"
  receivermod_objects :: "'f receivermod_object list"
  diff_snd_field_objects :: "bool list"

text \<open>The functions this file calls and does not define are parameters of the model:
  number formatting, the scene and module loaders of the session, the speaker layout
  reader, the equaliser fit, the band analysis, the level meter (one mean-square value
  per weighting and recorded channel), the recorder's sample rate, the layout checksum
  and the clock. \<open>'w\<close> is a recorded channel (\<^verbatim>\<open>wave_t\<close>).\<close>

datatype weight_t = C | Z

record ('f, 'w) externals =
  to_string :: "real \<Rightarrow> string"
  to_string_vec :: "real list \<Rightarrow> string"
  uint_to_string :: "nat \<Rightarrow> string"
  add_scene :: "xml_element \<Rightarrow> error + 'f scene_t list"
  add_module :: "xml_element \<Rightarrow> error option"
  spk_array_diff_render :: "xml_element \<Rightarrow> bool \<Rightarrow> error + 'f spk_array_t"
  pareq_new :: 'f
  optim_response :: "nat \<Rightarrow> real list \<Rightarrow> real list \<Rightarrow> real \<Rightarrow> 'f \<Rightarrow> 'f"
  get_bandlevels :: "spk_eq_param_t \<Rightarrow> 'w \<Rightarrow> real list \<times> real list"
  levelmeter_ms :: "weight_t \<Rightarrow> 'w \<Rightarrow> real"
  get_srate :: real
  get_spklayout_checksum :: "xml_element \<Rightarrow> nat"
  calibdate_now :: string

section \<open>Construction\<close>

definition get_calibfor :: "files \<Rightarrow> string \<Rightarrow> error + string" where
  "get_calibfor fs fname =
     (case fs fname of
        None \<Rightarrow> Inl (IOError fname)
      | Some doc_root \<Rightarrow> Inr (get_attribute ''calibfor'' doc_root))"

definition add_stimulus_plugin ::
  "('f, 'w) externals \<Rightarrow> spk_eq_param_t \<Rightarrow> xml_element \<Rightarrow> xml_element" where
  "add_stimulus_plugin ext par node =
     find_or_add_child ''plugins''
       (add_child (Element ''pink''
          [(''level'', to_string ext (reflevel par)),
           (''period'', to_string ext (duration par)),
           (''fmin'', to_string ext (fmin par)),
           (''fmax'', to_string ext (fmax par))] [])) node"

text \<open>The loop over the comma separated entries of \<^verbatim>\<open>calibfor\<close>: each entry is split
  at the colon and must give exactly two parts, which are set as an attribute of the
  layout specific receiver element.\<close>

definition calibfor_error :: "string \<Rightarrow> error" where
  "calibfor_error cf =
     ErrMsg (''Invalid format of '' @ [CHR 0x27] @ ''calibfor'' @ [CHR 0x27] @ '' attribute ''
             @ [CHR 0x27] @ cf @ [CHR 0x27]
             @ '': Expected comma separated list of name:value pairs.'')"

fun set_receivertypeattr :: "string \<Rightarrow> string list \<Rightarrow> xml_element \<Rightarrow> error + xml_element" where
  "set_receivertypeattr cf [] e = Inr e"
| "set_receivertypeattr cf (typeattr # rest) e =
     (case string_token typeattr '':'' of
        None \<Rightarrow> Inl Diverges
      | Some pair \<Rightarrow>
          if length pair \<noteq> 2 then Inl (calibfor_error cf)
          else set_receivertypeattr cf rest (set_attribute (pair ! 0) (pair ! 1) e))"

definition e_rcvr2_init :: "string \<Rightarrow> xml_element" where
  "e_rcvr2_init fname =
     Element ''receiver'' [(''name'', ''out2''), (''mute'', ''true''), (''layout'', fname)] []"

definition spec_receiver_element :: "string \<Rightarrow> string \<Rightarrow> error + xml_element" where
  "spec_receiver_element fname cf =
     (case string_token cf '','' of
        None \<Rightarrow> Inl Diverges
      | Some receivertypeattr \<Rightarrow> set_receivertypeattr cf receivertypeattr (e_rcvr2_init fname))"

definition e_rcvr_nsp :: "string \<Rightarrow> xml_element" where
  "e_rcvr_nsp fname = Element ''receiver'' [(''type'', ''nsp''), (''layout'', fname)] []"

text \<open>The calibration scene as it stands when it is handed to \<^verbatim>\<open>add_scene\<close>.\<close>

definition calib_scene ::
  "('f, 'w) externals \<Rightarrow> string \<Rightarrow> spk_eq_param_t \<Rightarrow> spk_eq_param_t \<Rightarrow> xml_element
     \<Rightarrow> xml_element" where
  "calib_scene ext fname par_speaker0 par_sub0 e_rcvr2 =
     Element ''scene'' [(''name'', ''calib'')]
       [Element ''source'' [(''mute'', ''true'')]
          [add_stimulus_plugin ext par_speaker0 (Element ''sound'' [] [])],
        Element ''source'' [(''name'', ''srcsub''), (''mute'', ''true'')]
          [add_stimulus_plugin ext par_sub0 (Element ''sound'' [] [])],
        e_rcvr_nsp fname,
        e_rcvr2,
        Element ''receiver'' [(''type'', ''omni''), (''name'', ''ref'')] [],
        add_stimulus_plugin ext par_speaker0 (Element ''diffuse'' [(''mute'', ''true'')] [])]"

definition route_module ::
  "('f, 'w) externals \<Rightarrow> string \<Rightarrow> spk_eq_param_t \<Rightarrow> xml_element" where
  "route_module ext n par =
     add_stimulus_plugin ext par (Element ''route'' [(''name'', n), (''channels'', ''1'')] [])"

definition clear_eqstages :: "'f spk_array_t \<Rightarrow> 'f spk_array_t" where
  "clear_eqstages a =
     \<lparr>spk = map (\<lambda>sp. sp\<lparr>eqstages := 0\<rparr>) (spk a),
      subs = map (\<lambda>sp. sp\<lparr>eqstages := 0\<rparr>) (subs a)\<rparr>"

definition receiver_of :: "'f receivermod_object \<Rightarrow> 'f spk_array_t \<Rightarrow> 'f receiver_t" where
  "receiver_of r a =
     \<lparr>rec_mute = rm_mute r, caliblevel = rm_caliblevel r, diffusegain = rm_diffusegain r,
      spkpos = a\<rparr>"

text \<open>The session after the scene is loaded: the two sources, the diffuse field and
  the first two receivers of the last scene are the objects the session works on.
  \<^verbatim>\<open>fcomp_bb\<close>, \<^verbatim>\<open>fcomp_sub\<close> and the measurement vectors are not in the
  constructor's initialiser list; they start at zero and empty. The session record
  holds these objects by value, so a last scene that lacks one of them (which the
  later \<^verbatim>\<open>scenes.back()\<close> accesses would read out of range) yields \<open>Undefined\<close>.\<close>

definition session_of ::
  "string \<Rightarrow> string list \<Rightarrow> spk_eq_param_t \<Rightarrow> spk_eq_param_t \<Rightarrow> string \<Rightarrow> 'f spk_array_t
     \<Rightarrow> 'f scene_t \<Rightarrow> 'f receivermod_object \<Rightarrow> 'f spk_array_t
     \<Rightarrow> 'f receivermod_object \<Rightarrow> 'f spk_array_t \<Rightarrow> 'f calibsession_t" where
  "session_of fname refport0 par_speaker0 par_sub0 cf file_array sc r_nsp a_nsp r_spec a_spec =
     (let s = \<lparr>gainmodified = False, levelsrecorded = False, calibrated = False,
               calibrated_diff = False, startlevel = 0, startdiffgain = 0, delta = 0,
               delta_diff = 0, spkname = fname, spk_file = file_array,
               par_speaker = par_speaker0, par_sub = par_sub0, refport = refport0,
               lmin = 0, lmax = 0, lmean = 0, calibfor = cf,
               levels = replicate (length (spk file_array)) 0,
               sublevels = replicate (length (subs file_array)) 0,
               levelsfrg = replicate (length (spk file_array)) 0,
               sublevelsfrg = replicate (length (subs file_array)) 0,
               fcomp_bb = 0, fcomp_sub = 0, vF = [], vFsub = [], vGains = [], vGainsSub = [],
               src_bb = (source_objects sc ! 0)\<lparr>dlocation := (1, 0, 0)\<rparr>,
               src_subw = source_objects sc ! 1,
               diff_mute = last (diff_snd_field_objects sc),
               rec_nsp = receiver_of r_nsp a_nsp,
               rec_spec = receiver_of r_spec a_spec\<rparr>;
          s1 = s\<lparr>startlevel := get_caliblevel s\<rparr>;
          s2 = s1\<lparr>startdiffgain := get_diffusegain s1\<rparr>
      in s2\<lparr>rec_nsp := (rec_nsp s2)\<lparr>spkpos := clear_eqstages (spkpos (rec_nsp s2))\<rparr>,
             rec_spec := (rec_spec s2)\<lparr>spkpos := clear_eqstages (spkpos (rec_spec s2))\<rparr>\<rparr>)"

text \<open>The constructor after the \<^verbatim>\<open>calibfor\<close> loop: the scene and the two route
  modules are loaded, the layout is read, and the loaded scene is validated.\<close>

definition load_session ::
  "('f, 'w) externals \<Rightarrow> string \<Rightarrow> string list \<Rightarrow> spk_eq_param_t \<Rightarrow> spk_eq_param_t
     \<Rightarrow> string \<Rightarrow> xml_element \<Rightarrow> error + 'f calibsession_t" where
  "load_session ext fname refport0 par_speaker0 par_sub0 cf e_rcvr2 =
     (case add_scene ext (calib_scene ext fname par_speaker0 par_sub0 e_rcvr2) of
        Inl e \<Rightarrow> Inl e
      | Inr scenes \<Rightarrow>
     (case add_module ext (route_module ext ''pink'' par_speaker0) of
        Some e \<Rightarrow> Inl e
      | None \<Rightarrow>
     (case add_module ext (route_module ext ''sub'' par_sub0) of
        Some e \<Rightarrow> Inl e
      | None \<Rightarrow>
     (case spk_array_diff_render ext (e_rcvr_nsp fname) False of
        Inl e \<Rightarrow> Inl e
      | Inr file_array \<Rightarrow>
     if scenes = [] then Inl (ErrMsg ''Programming error: no scene'')
     else if length (source_objects (scenes ! 0)) \<noteq> 2
       then Inl (ErrMsg ''Programming error: not exactly two sources.'')
     else if length (receivermod_objects (scenes ! 0)) \<noteq> 3
       then Inl (ErrMsg ''Programming error: not exactly three receivers.'')
     else if length (source_objects (last scenes)) < 2
             \<or> length (receivermod_objects (last scenes)) < 2
             \<or> diff_snd_field_objects (last scenes) = []
       then Inl Undefined
     else
     (case rm_libdata (receivermod_objects (last scenes) ! 0) of
        Other_receiver \<Rightarrow> Inl (ErrMsg ''Programming error: Invalid speaker type.'')
      | Speaker_based a_nsp \<Rightarrow>
     (case rm_libdata (receivermod_objects (last scenes) ! 1) of
        Other_receiver \<Rightarrow> Inl (ErrMsg ''Programming error: Invalid speaker type.'')
      | Speaker_based a_spec \<Rightarrow>
          Inr (session_of fname refport0 par_speaker0 par_sub0 cf file_array (last scenes)
                 (receivermod_objects (last scenes) ! 0) a_nsp
                 (receivermod_objects (last scenes) ! 1) a_spec)))))))"

definition calibsession_new ::
  "('f, 'w) externals \<Rightarrow> files \<Rightarrow> string \<Rightarrow> string list \<Rightarrow> spk_eq_param_t \<Rightarrow> spk_eq_param_t
     \<Rightarrow> error + 'f calibsession_t" where
  "calibsession_new ext fs fname refport0 par_speaker0 par_sub0 =
     (case get_calibfor fs fname of
        Inl e \<Rightarrow> Inl e
      | Inr cf0 \<Rightarrow>
          let cf = (if cf0 = [] then ''type:nsp'' else cf0)
          in (case spec_receiver_element fname cf of
                Inl e \<Rightarrow> Inl e
              | Inr e_rcvr2 \<Rightarrow>
                  load_session ext fname refport0 par_speaker0 par_sub0 cf e_rcvr2))"

section \<open>Mute state\<close>

text \<open>Every statement of \<^verbatim>\<open>set_active\<close>, \<^verbatim>\<open>set_active_diff\<close> and of the phase
  switches in \<^verbatim>\<open>get_levels\<close> is one step on the session, so that the states between
  two statements can be inspected. An operation is the list of its steps in program
  order, and running it applies them from left to right.\<close>

definition mute_bb :: "bool \<Rightarrow> 'f calibsession_t \<Rightarrow> 'f calibsession_t" where
  "mute_bb b s = s\<lparr>src_bb := (src_bb s)\<lparr>src_mute := b\<rparr>\<rparr>"

definition mute_subw :: "bool \<Rightarrow> 'f calibsession_t \<Rightarrow> 'f calibsession_t" where
  "mute_subw b s = s\<lparr>src_subw := (src_subw s)\<lparr>src_mute := b\<rparr>\<rparr>"

definition mute_diff :: "bool \<Rightarrow> 'f calibsession_t \<Rightarrow> 'f calibsession_t" where
  "mute_diff b s = s\<lparr>diff_mute := b\<rparr>"

definition mute_nsp :: "bool \<Rightarrow> 'f calibsession_t \<Rightarrow> 'f calibsession_t" where
  "mute_nsp b s = s\<lparr>rec_nsp := (rec_nsp s)\<lparr>rec_mute := b\<rparr>\<rparr>"

definition mute_spec :: "bool \<Rightarrow> 'f calibsession_t \<Rightarrow> 'f calibsession_t" where
  "mute_spec b s = s\<lparr>rec_spec := (rec_spec s)\<lparr>rec_mute := b\<rparr>\<rparr>"

definition reset_bb_location :: "'f calibsession_t \<Rightarrow> 'f calibsession_t" where
  "reset_bb_location s = s\<lparr>src_bb := (src_bb s)\<lparr>dlocation := (1, 0, 0)\<rparr>\<rparr>"

definition reset_subw_location :: "'f calibsession_t \<Rightarrow> 'f calibsession_t" where
  "reset_subw_location s = s\<lparr>src_subw := (src_subw s)\<lparr>dlocation := (1, 0, 0)\<rparr>\<rparr>"

function set_active_steps :: "bool \<Rightarrow> ('f calibsession_t \<Rightarrow> 'f calibsession_t) list"
  and set_active_diff_steps :: "bool \<Rightarrow> ('f calibsession_t \<Rightarrow> 'f calibsession_t) list" where
  "set_active_steps b =
     [mute_subw True]
     @ (if \<not> b then [mute_nsp False, mute_spec True] else [])
     @ (if b then set_active_diff_steps False else [])
     @ [reset_bb_location, mute_bb (\<not> b)]
     @ (if b then [\<lambda>s. s\<lparr>calibrated := True\<rparr>, mute_nsp True, mute_spec False] else [])"
| "set_active_diff_steps b =
     [mute_subw True]
     @ (if \<not> b then [mute_nsp False, mute_spec True] else [])
     @ (if b then set_active_steps False else [])
     @ [mute_diff (\<not> b)]
     @ (if b then [\<lambda>s. s\<lparr>calibrated_diff := True\<rparr>, mute_nsp True, mute_spec False] else [])"
  by pat_completeness auto
termination
  by (relation "measure (\<lambda>x. case x of Inl b \<Rightarrow> (if b then 1 else 0)
                                     | Inr b \<Rightarrow> (if b then 1 else 0))") auto

definition run_steps :: "('s \<Rightarrow> 's) list \<Rightarrow> 's \<Rightarrow> 's" where
  "run_steps steps s = fold (\<lambda>f x. f x) steps s"

text \<open>All states an operation passes through, the first and the last included.\<close>

fun states_of :: "('s \<Rightarrow> 's) list \<Rightarrow> 's \<Rightarrow> 's list" where
  "states_of [] s = [s]"
| "states_of (f # fs) s = s # states_of fs (f s)"

definition set_active :: "bool \<Rightarrow> 'f calibsession_t \<Rightarrow> 'f calibsession_t" where
  "set_active b s = run_steps (set_active_steps b) s"

definition set_active_diff :: "bool \<Rightarrow> 'f calibsession_t \<Rightarrow> 'f calibsession_t" where
  "set_active_diff b s = run_steps (set_active_diff_steps b) s"

text \<open>The phase switches of \<^verbatim>\<open>get_levels\<close>: before the broadband measurement, before
  the subwoofer measurement, and the loop that mutes both sources at the end.\<close>

definition broadband_phase_steps :: "('f calibsession_t \<Rightarrow> 'f calibsession_t) list" where
  "broadband_phase_steps = [mute_subw True, mute_bb False, mute_spec True, mute_nsp False]"

definition subwoofer_phase_steps :: "('f calibsession_t \<Rightarrow> 'f calibsession_t) list" where
  "subwoofer_phase_steps = [mute_bb True, mute_subw False]"

definition end_phase_steps :: "('f calibsession_t \<Rightarrow> 'f calibsession_t) list" where
  "end_phase_steps = [mute_bb True, reset_bb_location, mute_subw True, reset_subw_location]"

text \<open>The stimuli that are audible in a state, as a count.\<close>

definition unmuted_stimuli :: "'f calibsession_t \<Rightarrow> nat" where
  "unmuted_stimuli s =
     (if src_mute (src_bb s) then 0 else 1) + (if src_mute (src_subw s) then 0 else 1)
     + (if diff_mute s then 0 else 1)"

section \<open>Resetting the levels\<close>

text \<open>\<^verbatim>\<open>for(k = 0; k < n; ++k) xs[k] = f(k, xs[k])\<close> on a vector: undefined when \<open>n\<close>
  exceeds the size.\<close>

definition update_first :: "nat \<Rightarrow> (nat \<Rightarrow> 'a \<Rightarrow> 'a) \<Rightarrow> 'a list \<Rightarrow> error + 'a list" where
  "update_first n f xs =
     (if length xs < n then Inl Undefined
      else Inr (map (\<lambda>k. if k < n then f k (xs ! k) else xs ! k) [0..<length xs]))"

definition reset_gains ::
  "nat \<Rightarrow> nat \<Rightarrow> 'f spk_array_t \<Rightarrow> error + 'f spk_array_t" where
  "reset_gains n nsub a =
     (case update_first n (\<lambda>k sp. sp\<lparr>gain := 1\<rparr>) (spk a) of
        Inl e \<Rightarrow> Inl e
      | Inr sp1 \<Rightarrow>
     (case update_first nsub (\<lambda>k sp. sp\<lparr>gain := 1\<rparr>) (subs a) of
        Inl e \<Rightarrow> Inl e
      | Inr sb1 \<Rightarrow> Inr \<lparr>spk = sp1, subs = sb1\<rparr>))"

definition reset_levels :: "'f calibsession_t \<Rightarrow> error + 'f calibsession_t" where
  "reset_levels s =
     (let s1 = s\<lparr>levelsrecorded := False,
                 levelsfrg := map (\<lambda>r. 0) (levelsfrg s),
                 sublevelsfrg := map (\<lambda>r. 0) (sublevelsfrg s)\<rparr>
      in case reset_gains (length (levels s1)) (length (sublevels s1)) (spkpos (rec_nsp s1)) of
           Inl e \<Rightarrow> Inl e
         | Inr a_nsp \<Rightarrow>
        (case reset_gains (length (levels s1)) (length (sublevels s1)) (spkpos (rec_spec s1)) of
           Inl e \<Rightarrow> Inl e
         | Inr a_spec \<Rightarrow>
             Inr (s1\<lparr>rec_nsp := (rec_nsp s1)\<lparr>spkpos := a_nsp\<rparr>,
                      rec_spec := (rec_spec s1)\<lparr>spkpos := a_spec\<rparr>\<rparr>)))"


section \<open>Measuring the frequency response\<close>

text \<open>\<^verbatim>\<open>ports.size() - 1u\<close> in \<^verbatim>\<open>size_t\<close> arithmetic.\<close>

definition measurement_channels :: "nat \<Rightarrow> nat" where
  "measurement_channels nports = (nports + 2 ^ 64 - 1) mod 2 ^ 64"

text \<open>One pass of the channel loop: the band levels of a channel go to the power
  domain and are summed into \<^verbatim>\<open>vLmean\<close>.\<close>

definition add_power :: "real list \<Rightarrow> real list \<Rightarrow> error + real list" where
  "add_power vLmean vL =
     (if vLmean = [] then Inr vL
      else update_first (length vL) (\<lambda>k m. m + vL ! k) vLmean)"

fun channel_loop ::
  "('f, 'w) externals \<Rightarrow> spk_eq_param_t \<Rightarrow> 'w list \<Rightarrow> real list \<Rightarrow> error + real list" where
  "channel_loop ext calibpar [] vLmean = Inr vLmean"
| "channel_loop ext calibpar (wav # rest) vLmean =
     (case add_power vLmean
             (map (\<lambda>l. 10 powr (0.1 * l)) (snd (get_bandlevels ext calibpar wav))) of
        Inl e \<Rightarrow> Inl e
      | Inr m \<Rightarrow> channel_loop ext calibpar rest m)"

text \<open>The summed power is divided by the number of recorded buffers and taken back
  to decibels. Channels \<open>0 .. ports.size() - 2\<close> of the recording are read; a recording
  with fewer buffers is read out of range.\<close>

definition mean_bandlevels ::
  "('f, 'w) externals \<Rightarrow> spk_eq_param_t \<Rightarrow> 'w list \<Rightarrow> nat \<Rightarrow> error + real list" where
  "mean_bandlevels ext calibpar recbuf nports =
     (if length recbuf < measurement_channels nports then Inl Undefined
      else case channel_loop ext calibpar (take (measurement_channels nports) recbuf) [] of
             Inl e \<Rightarrow> Inl e
           | Inr vLmean \<Rightarrow>
               Inr (map (\<lambda>l. 10 * log 10 (l / real (length recbuf))) vLmean))"

text \<open>\<^verbatim>\<open>vLmean[ch] = vLref[ch] - vLmean[ch]\<close> for the bands both vectors have.\<close>

definition subtract_from_ref :: "real list \<Rightarrow> real list \<Rightarrow> real list" where
  "subtract_from_ref vLref vLmean =
     map (\<lambda>ch. if ch < min (length vLmean) (length vLref) then vLref ! ch - vLmean ! ch
                else vLmean ! ch) [0..<length vLmean]"

text \<open>The curve of one speaker in \<^verbatim>\<open>get_fresp_\<close>: the band frequencies of the reference
  channel and the normalised difference.\<close>

definition fresp_curve ::
  "('f, 'w) externals \<Rightarrow> spk_eq_param_t \<Rightarrow> 'w list \<Rightarrow> nat \<Rightarrow> error + real list \<times> real list" where
  "fresp_curve ext calibpar recbuf nports =
     (case mean_bandlevels ext calibpar recbuf nports of
        Inl e \<Rightarrow> Inl e
      | Inr vLmean \<Rightarrow>
          if recbuf = [] then Inl Undefined
          else let d = subtract_from_ref (snd (get_bandlevels ext calibpar (last recbuf))) vLmean
               in if d = [] then Inl Undefined
                  else let vl_max = fold (\<lambda>l m. max m l) d (last d)
                       in Inr (fst (get_bandlevels ext calibpar (last recbuf)),
                               map (\<lambda>l. l - vl_max) d))"

text \<open>\<^verbatim>\<open>std::min(((uint32_t)vF.size() - 1u) / 3u, max_eqstages)\<close> in 32 bit arithmetic.\<close>

definition stage_count :: "nat \<Rightarrow> nat \<Rightarrow> nat" where
  "stage_count nbands m = min (((nbands mod 2 ^ 32 + 2 ^ 32 - 1) mod 2 ^ 32) div 3) m"

text \<open>The loop over the speakers. \<open>record_at k ch\<close> is channel \<open>ch\<close> of the recording
  taken while the source stands at speaker \<open>k\<close>; \<open>nrec\<close> is \<^verbatim>\<open>recbuf.size()\<close>.\<close>

fun get_fresp_loop ::
  "('f, 'w) externals \<Rightarrow> spk_eq_param_t \<Rightarrow> nat \<Rightarrow> nat \<Rightarrow> (nat \<Rightarrow> nat \<Rightarrow> 'w) \<Rightarrow> nat
     \<Rightarrow> 'f spk_descriptor list \<Rightarrow> real list \<Rightarrow> real list list \<Rightarrow> nat
     \<Rightarrow> error + nat \<times> 'f spk_descriptor list \<times> real list \<times> real list list" where
  "get_fresp_loop ext calibpar nrec nports record_at k [] vF0 vGain numflt =
     Inr (numflt, [], vF0, vGain)"
| "get_fresp_loop ext calibpar nrec nports record_at k (sp # rest) vF0 vGain numflt =
     (case fresp_curve ext calibpar (map (record_at k) [0..<nrec]) nports of
        Inl e \<Rightarrow> Inl e
      | Inr (vF1, vLmean) \<Rightarrow>
          let numflt1 = (if numflt = 0 then stage_count (length vF1) (max_eqstages calibpar)
                         else numflt);
              sp1 = sp\<lparr>eq := optim_response ext numflt1 vF1 vLmean (get_srate ext) (pareq_new ext),
                       eqfreq := vF1, eqgain := vLmean, eqstages := numflt1\<rparr>
          in (case get_fresp_loop ext calibpar nrec nports record_at (Suc k) rest vF1
                     (vGain @ [vLmean]) numflt1 of
                Inl e \<Rightarrow> Inl e
              | Inr (n, rest1, vF2, vGain2) \<Rightarrow> Inr (n, sp1 # rest1, vF2, vGain2)))"

definition move_source :: "'f spk_descriptor list \<Rightarrow> src_object_t \<Rightarrow> src_object_t" where
  "move_source spks src = (if spks = [] then src else src\<lparr>dlocation := unitvector (last spks)\<rparr>)"

definition get_fresp_impl ::
  "('f, 'w) externals \<Rightarrow> spk_eq_param_t \<Rightarrow> nat \<Rightarrow> nat \<Rightarrow> (nat \<Rightarrow> nat \<Rightarrow> 'w)
     \<Rightarrow> 'f spk_descriptor list \<Rightarrow> src_object_t \<Rightarrow> real list \<Rightarrow> real list list
     \<Rightarrow> error + nat \<times> 'f spk_descriptor list \<times> src_object_t \<times> real list \<times> real list list" where
  "get_fresp_impl ext calibpar nrec nports record_at spks src vF0 vGain =
     (if max_eqstages calibpar = 0 then Inr (0, spks, src, vF0, vGain)
      else case get_fresp_loop ext calibpar nrec nports record_at 0 spks [] [] 0 of
             Inl e \<Rightarrow> Inl e
           | Inr (n, spks1, vF1, vGain1) \<Rightarrow> Inr (n, spks1, move_source spks src, vF1, vGain1))"

section \<open>Measuring the levels\<close>

definition level_of_speaker ::
  "('f, 'w) externals \<Rightarrow> spk_eq_param_t \<Rightarrow> weight_t \<Rightarrow> 'w list \<Rightarrow> nat \<Rightarrow> error + real \<times> real" where
  "level_of_speaker ext calibpar weight recbuf nports =
     (case mean_bandlevels ext calibpar recbuf nports of
        Inl e \<Rightarrow> Inl e
      | Inr vLmean \<Rightarrow>
          if recbuf = [] then Inl Undefined
          else let lev_sqr = sum_list (map (levelmeter_ms ext weight)
                                          (take (measurement_channels nports) recbuf));
                   d = subtract_from_ref (snd (get_bandlevels ext calibpar (last recbuf))) vLmean
               in if d = [] then Inl Undefined
                  else Inr (10 * log 10 (lev_sqr / real (length recbuf)),
                            fold (\<lambda>l m. max m l) d (last d) - fold (\<lambda>l m. min m l) d (last d)))"

fun get_levels_loop ::
  "('f, 'w) externals \<Rightarrow> spk_eq_param_t \<Rightarrow> weight_t \<Rightarrow> nat \<Rightarrow> nat \<Rightarrow> (nat \<Rightarrow> nat \<Rightarrow> 'w) \<Rightarrow> nat
     \<Rightarrow> 'f spk_descriptor list \<Rightarrow> error + real list \<times> real list" where
  "get_levels_loop ext calibpar weight nrec nports record_at k [] = Inr ([], [])"
| "get_levels_loop ext calibpar weight nrec nports record_at k (sp # rest) =
     (case level_of_speaker ext calibpar weight (map (record_at k) [0..<nrec]) nports of
        Inl e \<Rightarrow> Inl e
      | Inr (lev, lrange) \<Rightarrow>
          (case get_levels_loop ext calibpar weight nrec nports record_at (Suc k) rest of
             Inl e \<Rightarrow> Inl e
           | Inr (lv, lr) \<Rightarrow> Inr (lev # lv, lrange # lr)))"

definition get_levels_impl ::
  "('f, 'w) externals \<Rightarrow> spk_eq_param_t \<Rightarrow> weight_t \<Rightarrow> nat \<Rightarrow> nat \<Rightarrow> (nat \<Rightarrow> nat \<Rightarrow> 'w)
     \<Rightarrow> 'f spk_descriptor list \<Rightarrow> src_object_t \<Rightarrow> error + real list \<times> real list \<times> src_object_t" where
  "get_levels_impl ext calibpar weight nrec nports record_at spks src =
     (case get_levels_loop ext calibpar weight nrec nports record_at 0 spks of
        Inl e \<Rightarrow> Inl e
      | Inr (lv, lr) \<Rightarrow> Inr (lv, lr, move_source spks src))"

section \<open>Gains and equalisers from the levels\<close>

text \<open>The body of the loop over the two receivers at the end of \<^verbatim>\<open>get_levels\<close>,
  first the gains. The local \<^verbatim>\<open>lmax\<close> starts at 0 and takes the maximum over the
  broadband gains; all gains are divided by it.\<close>

definition update_gains ::
  "real \<Rightarrow> real list \<Rightarrow> real list \<Rightarrow> 'f spk_array_t \<Rightarrow> error + 'f spk_array_t" where
  "update_gains lm lv sublv a =
     (case update_first (length lv)
             (\<lambda>k sp. sp\<lparr>gain := gain sp * 10 powr (0.05 * (lm - lv ! k))\<rparr>) (spk a) of
        Inl e \<Rightarrow> Inl e
      | Inr sp1 \<Rightarrow>
     (case update_first (length sublv)
             (\<lambda>k sp. sp\<lparr>gain := gain sp * 10 powr (0.05 * (lm - sublv ! k))\<rparr>) (subs a) of
        Inl e \<Rightarrow> Inl e
      | Inr sb1 \<Rightarrow>
     let gmax = fold (\<lambda>sp m. max m (gain sp)) (take (length lv) sp1) 0 in
     (case update_first (length lv) (\<lambda>k sp. sp\<lparr>gain := gain sp / gmax\<rparr>) sp1 of
        Inl e \<Rightarrow> Inl e
      | Inr sp2 \<Rightarrow>
     (case update_first (length sublv) (\<lambda>k sp. sp\<lparr>gain := gain sp / gmax\<rparr>) sb1 of
        Inl e \<Rightarrow> Inl e
      | Inr sb2 \<Rightarrow> Inr \<lparr>spk = sp2, subs = sb2\<rparr>))))"

definition refit_speaker ::
  "('f, 'w) externals \<Rightarrow> nat \<Rightarrow> real list \<Rightarrow> real list \<Rightarrow> 'f spk_descriptor \<Rightarrow> 'f spk_descriptor" where
  "refit_speaker ext nstages vF0 vG sp =
     (if nstages \<noteq> 0
      then sp\<lparr>eq := optim_response ext nstages vF0 vG (get_srate ext) (eq sp),
              eqfreq := vF0, eqgain := vG, eqstages := nstages\<rparr>
      else sp\<lparr>eqfreq := [], eqgain := [], eqstages := nstages\<rparr>)"

text \<open>The equaliser loops. Speaker number \<open>k\<close> takes the gain vector \<open>idx k\<close>: the
  broadband loop counts \<open>k\<close> up, the subwoofer loop never increments its counter.\<close>

definition refit_eq ::
  "('f, 'w) externals \<Rightarrow> nat \<Rightarrow> real list \<Rightarrow> real list list \<Rightarrow> (nat \<Rightarrow> nat)
     \<Rightarrow> 'f spk_descriptor list \<Rightarrow> error + 'f spk_descriptor list" where
  "refit_eq ext nstages vF0 vG idx spks =
     (if nstages \<noteq> 0 \<and> list_ex (\<lambda>k. length vG \<le> idx k) [0..<length spks] then Inl Undefined
      else Inr (map (\<lambda>k. refit_speaker ext nstages vF0 (vG ! idx k) (spks ! k)) [0..<length spks]))"

definition update_receiver ::
  "('f, 'w) externals \<Rightarrow> 'f calibsession_t \<Rightarrow> 'f spk_array_t \<Rightarrow> error + 'f spk_array_t" where
  "update_receiver ext s a =
     (case update_gains (lmin s) (levels s) (sublevels s) a of
        Inl e \<Rightarrow> Inl e
      | Inr a1 \<Rightarrow>
     (case refit_eq ext (fcomp_bb s) (vF s) (vGains s) (\<lambda>k. k) (spk a1) of
        Inl e \<Rightarrow> Inl e
      | Inr sp \<Rightarrow>
     (case refit_eq ext (fcomp_sub s) (vFsub s) (vGainsSub s) (\<lambda>k. 0) (subs a1) of
        Inl e \<Rightarrow> Inl e
      | Inr sb \<Rightarrow> Inr \<lparr>spk = sp, subs = sb\<rparr>)))"

definition update_receivers ::
  "('f, 'w) externals \<Rightarrow> 'f calibsession_t \<Rightarrow> error + 'f calibsession_t" where
  "update_receivers ext s =
     (case update_receiver ext s (spkpos (rec_nsp s)) of
        Inl e \<Rightarrow> Inl e
      | Inr a_nsp \<Rightarrow>
     (case update_receiver ext s (spkpos (rec_spec s)) of
        Inl e \<Rightarrow> Inl e
      | Inr a_spec \<Rightarrow>
          Inr (s\<lparr>rec_nsp := (rec_nsp s)\<lparr>spkpos := a_nsp\<rparr>,
                 rec_spec := (rec_spec s)\<lparr>spkpos := a_spec\<rparr>\<rparr>)))"


section \<open>The level measurement of the session\<close>

text \<open>The four recordings \<^verbatim>\<open>get_levels\<close> takes per speaker, by speaker number and
  channel. The list of ports is \<^verbatim>\<open>refport_\<close> and one more, and the constructor gives
  both record buffers one channel more than \<^verbatim>\<open>refport_\<close> has.\<close>

record 'w recordings =
  rec_fresp_bb :: "nat \<Rightarrow> nat \<Rightarrow> 'w"
  rec_levels_bb :: "nat \<Rightarrow> nat \<Rightarrow> 'w"
  rec_fresp_sub :: "nat \<Rightarrow> nat \<Rightarrow> 'w"
  rec_levels_sub :: "nat \<Rightarrow> nat \<Rightarrow> 'w"

definition measure_broadband ::
  "('f, 'w) externals \<Rightarrow> 'w recordings \<Rightarrow> 'f calibsession_t \<Rightarrow> error + 'f calibsession_t" where
  "measure_broadband ext rcd s =
     (let n = length (refport s) + 1 in
      case get_fresp_impl ext (par_speaker s) n n (rec_fresp_bb rcd)
             (spk (spkpos (rec_nsp s))) (src_bb s) (vF s) (vGains s) of
        Inl e \<Rightarrow> Inl e
      | Inr (numflt, spks1, src1, vF1, vG1) \<Rightarrow>
          (case get_levels_impl ext (par_speaker s) C n n (rec_levels_bb rcd) spks1 src1 of
             Inl e \<Rightarrow> Inl e
           | Inr (lv, lr, src2) \<Rightarrow>
               Inr (s\<lparr>fcomp_bb := numflt, vF := vF1, vGains := vG1, levels := lv,
                      levelsfrg := lr, src_bb := src2,
                      rec_nsp := (rec_nsp s)\<lparr>spkpos := (spkpos (rec_nsp s))\<lparr>spk := spks1\<rparr>\<rparr>\<rparr>)))"

definition measure_subwoofer ::
  "('f, 'w) externals \<Rightarrow> 'w recordings \<Rightarrow> 'f calibsession_t \<Rightarrow> error + 'f calibsession_t" where
  "measure_subwoofer ext rcd s =
     (let n = length (refport s) + 1 in
      case get_fresp_impl ext (par_sub s) n n (rec_fresp_sub rcd)
             (subs (spkpos (rec_nsp s))) (src_subw s) (vFsub s) (vGainsSub s) of
        Inl e \<Rightarrow> Inl e
      | Inr (numflt, subs1, src1, vF1, vG1) \<Rightarrow>
          (case get_levels_impl ext (par_sub s) Z n n (rec_levels_sub rcd) subs1 src1 of
             Inl e \<Rightarrow> Inl e
           | Inr (lv, lr, src2) \<Rightarrow>
               Inr (s\<lparr>fcomp_sub := numflt, vFsub := vF1, vGainsSub := vG1, sublevels := lv,
                      sublevelsfrg := lr, src_subw := src2,
                      rec_nsp := (rec_nsp s)\<lparr>spkpos := (spkpos (rec_nsp s))\<lparr>subs := subs1\<rparr>\<rparr>\<rparr>)))"

definition level_min :: "real list \<Rightarrow> real" where
  "level_min lv = fold (\<lambda>l m. min l m) lv (lv ! 0)"

definition level_max :: "real list \<Rightarrow> real" where
  "level_max lv = fold (\<lambda>l m. max l m) lv (lv ! 0)"

definition level_mean :: "real list \<Rightarrow> real" where
  "level_mean lv = fold (\<lambda>l m. m + l) lv 0 / real (length lv)"

text \<open>\<^verbatim>\<open>get_levels\<close> from the comment ``convert levels into gains'' on.\<close>

definition levels_to_gains ::
  "('f, 'w) externals \<Rightarrow> 'f calibsession_t \<Rightarrow> error + 'f calibsession_t" where
  "levels_to_gains ext s =
     (if levels s = [] then Inl Undefined
      else case update_receivers ext
                  (s\<lparr>lmin := level_min (levels s), lmax := level_max (levels s),
                     lmean := level_mean (levels s)\<rparr>) of
             Inl e \<Rightarrow> Inl e
           | Inr s1 \<Rightarrow> Inr (s1\<lparr>levelsrecorded := True\<rparr>))"

definition get_levels ::
  "('f, 'w) externals \<Rightarrow> 'w recordings \<Rightarrow> 'f calibsession_t \<Rightarrow> error + 'f calibsession_t" where
  "get_levels ext rcd s =
     (case measure_broadband ext rcd (run_steps broadband_phase_steps s) of
        Inl e \<Rightarrow> Inl e
      | Inr s1 \<Rightarrow>
     (case (if subs (spkpos (rec_nsp s1)) \<noteq> []
            then measure_subwoofer ext rcd (run_steps subwoofer_phase_steps s1)
            else Inr s1) of
        Inl e \<Rightarrow> Inl e
      | Inr s2 \<Rightarrow> levels_to_gains ext (run_steps end_phase_steps s2)))"

section \<open>Saving the layout\<close>

text \<open>\<^verbatim>\<open>spk_spec->spkpos[std::min(k, spk_spec->spkpos.size() - 1)]\<close>; the subtraction
  is in \<^verbatim>\<open>size_t\<close>.\<close>

definition clamped_index :: "nat \<Rightarrow> nat \<Rightarrow> nat" where
  "clamped_index k n = min k ((n + 2 ^ 64 - 1) mod 2 ^ 64)"

definition save_speaker ::
  "('f, 'w) externals \<Rightarrow> 'f spk_descriptor list \<Rightarrow> nat \<Rightarrow> real list \<Rightarrow> real list list \<Rightarrow> nat
     \<Rightarrow> xml_element \<Rightarrow> error + xml_element" where
  "save_speaker ext spks nstages vF0 vG k espk =
     (if length spks \<le> clamped_index k (length spks) then Inl Undefined
      else
        let tscspk = spks ! clamped_index k (length spks);
            e1 = set_attribute ''gain'' (to_string ext (20 * log 10 (gain tscspk))) espk;
            e2 = set_attribute ''eqstages'' (uint_to_string ext nstages) e1
        in Inr (if 0 < nstages \<and> k < length vG
                then set_attribute ''eqgain'' (to_string_vec ext (vG ! k))
                       (set_attribute ''eqfreq'' (to_string_vec ext vF0) e2)
                else set_attribute ''eqgain'' [] (set_attribute ''eqfreq'' [] e2)))"

text \<open>The loop over \<^verbatim>\<open>get_children(tag)\<close>: the children with that name are rewritten
  in document order, counted by \<open>k\<close>.\<close>

fun rewrite_children ::
  "string \<Rightarrow> (nat \<Rightarrow> xml_element \<Rightarrow> error + xml_element) \<Rightarrow> nat \<Rightarrow> xml_element list
     \<Rightarrow> error + xml_element list" where
  "rewrite_children tag f k [] = Inr []"
| "rewrite_children tag f k (c # cs) =
     (if get_element_name c = tag
      then (case f k c of
              Inl e \<Rightarrow> Inl e
            | Inr c1 \<Rightarrow>
                (case rewrite_children tag f (Suc k) cs of
                   Inl e \<Rightarrow> Inl e
                 | Inr cs1 \<Rightarrow> Inr (c1 # cs1)))
      else (case rewrite_children tag f k cs of
              Inl e \<Rightarrow> Inl e
            | Inr cs1 \<Rightarrow> Inr (c # cs1)))"

definition save_xml :: "('f, 'w) externals \<Rightarrow> spk_eq_param_t \<Rightarrow> xml_element \<Rightarrow> xml_element" where
  "save_xml ext par layoutnode =
     find_or_add_child (if issub par then ''subcalibconfig'' else ''speakercalibconfig'')
       (\<lambda>e. set_attribute ''bandoverlap'' (to_string ext (bandoverlap par))
            (set_attribute ''bandsperoctave'' (to_string ext (bandsperoctave par))
            (set_attribute ''reflevel'' (to_string ext (reflevel par))
            (set_attribute ''prewait'' (to_string ext (prewait par))
            (set_attribute ''duration'' (to_string ext (duration par))
            (set_attribute ''fmax'' (to_string ext (fmax par))
            (set_attribute ''fmin'' (to_string ext (fmin par)) e)))))))
       layoutnode"

definition root_type_error :: "string \<Rightarrow> error" where
  "root_type_error n =
     ErrMsg (''Invalid file type, expected root node type '' @ [CHR 0x22] @ ''layout''
             @ [CHR 0x22] @ '', got '' @ [CHR 0x22] @ n @ [CHR 0x22] @ ''.'')"

text \<open>The document \<^verbatim>\<open>saveas\<close> writes, from the re-opened document.\<close>

definition saveas_document ::
  "('f, 'w) externals \<Rightarrow> 'f calibsession_t \<Rightarrow> xml_element \<Rightarrow> error + xml_element" where
  "saveas_document ext s doc_root =
     (if get_element_name doc_root \<noteq> ''layout''
      then Inl (root_type_error (get_element_name doc_root))
      else
        let d1 = set_attribute ''diffusegain'' (to_string ext (get_diffusegain s))
                   (set_attribute ''caliblevel'' (to_string ext (get_caliblevel s)) doc_root)
        in case spk_array_diff_render ext d1 True of
             Inl e \<Rightarrow> Inl e
           | Inr array \<Rightarrow>
          (case rewrite_children ''speaker''
                  (save_speaker ext (spk (spkpos (rec_spec s))) (fcomp_bb s) (vF s) (vGains s))
                  0 (children d1) of
             Inl e \<Rightarrow> Inl e
           | Inr cs1 \<Rightarrow>
          (case rewrite_children ''sub''
                  (save_speaker ext (subs (spkpos (rec_spec s))) (fcomp_sub s) (vFsub s)
                     (vGainsSub s))
                  0 cs1 of
             Inl e \<Rightarrow> Inl e
           | Inr cs2 \<Rightarrow>
               let d2 = Element (get_element_name d1) (attributes d1) cs2;
                   d3 = set_attribute ''checksum''
                          (uint_to_string ext (get_spklayout_checksum ext d2)) d2;
                   d4 = set_attribute ''calibfor'' (calibfor s)
                          (set_attribute ''calibdate'' (calibdate_now ext) d3)
               in Inr (save_xml ext (par_sub s) (save_xml ext (par_speaker s) d4)))))"

text \<open>\<^verbatim>\<open>saveas\<close> returns normally (\<open>None\<close>) or throws, and in both cases leaves a
  session and a file system behind. The local vector \<^verbatim>\<open>gains\<close> is computed from
  \<^verbatim>\<open>spk_file\<close> and the levels before the document is opened and is not read again; the
  model keeps the two out of range reads of that computation.\<close>

definition saveas ::
  "('f, 'w) externals \<Rightarrow> files \<Rightarrow> 'f calibsession_t \<Rightarrow> string
     \<Rightarrow> error option \<times> 'f calibsession_t \<times> files" where
  "saveas ext fs s fname =
     (if levels s = [] \<or> length (spk (spk_file s)) < length (levels s)
      then (Some Undefined, s, fs)
      else case fs (spkname s) of
             None \<Rightarrow> (Some (IOError (spkname s)), s, fs)
           | Some doc_root \<Rightarrow>
               (case saveas_document ext s doc_root of
                  Inl e \<Rightarrow> (Some e, s, fs)
                | Inr d \<Rightarrow>
                    (None,
                     s\<lparr>gainmodified := False, levelsrecorded := False, calibrated := False,
                       calibrated_diff := False\<rparr>,
                     fs(fname \<mapsto> d))))"

definition save ::
  "('f, 'w) externals \<Rightarrow> files \<Rightarrow> 'f calibsession_t \<Rightarrow> error option \<times> 'f calibsession_t \<times> files" where
  "save ext fs s = saveas ext fs s (spkname s)"


section \<open>Sequences of calibration operations\<close>

text \<open>The operations of the session that write the speaker arrays or the levels of the
  two receivers: \<^verbatim>\<open>reset_levels\<close>, the conversion of levels into gains and equalisers at
  the end of \<^verbatim>\<open>get_levels\<close>, \<^verbatim>\<open>inc_caliblevel\<close> and \<^verbatim>\<open>inc_diffusegain\<close>. A sequence
  stops at the first operation that fails.\<close>

datatype calib_op = Reset_levels | Levels_to_gains | Inc_caliblevel real | Inc_diffusegain real

fun apply_op ::
  "('f, 'w) externals \<Rightarrow> calib_op \<Rightarrow> 'f calibsession_t \<Rightarrow> error + 'f calibsession_t" where
  "apply_op ext Reset_levels s = reset_levels s"
| "apply_op ext Levels_to_gains s = levels_to_gains ext s"
| "apply_op ext (Inc_caliblevel dl) s = Inr (inc_caliblevel dl s)"
| "apply_op ext (Inc_diffusegain dl) s = Inr (inc_diffusegain dl s)"

fun run_ops ::
  "('f, 'w) externals \<Rightarrow> calib_op list \<Rightarrow> 'f calibsession_t \<Rightarrow> error + 'f calibsession_t" where
  "run_ops ext [] s = Inr s"
| "run_ops ext (c # cs) s =
     (case apply_op ext c s of Inl e \<Rightarrow> Inl e | Inr s1 \<Rightarrow> run_ops ext cs s1)"

text \<open>The two receivers are in lock-step when their speaker arrays, with all fields of
  every speaker and subwoofer, their calibration levels and their diffuse gains are
  equal.\<close>

definition lockstep :: "'f calibsession_t \<Rightarrow> bool" where
  "lockstep s \<longleftrightarrow>
     spkpos (rec_nsp s) = spkpos (rec_spec s)
     \<and> caliblevel (rec_nsp s) = caliblevel (rec_spec s)
     \<and> diffusegain (rec_nsp s) = diffusegain (rec_spec s)"

text \<open>The counts agree when both arrays have as many speakers and subwoofers as there
  are measured levels, there is at least one level, and the gain vectors that a
  nonzero stage count makes the equaliser loops read are present.\<close>

definition counts_agree :: "'f calibsession_t \<Rightarrow> bool" where
  "counts_agree s \<longleftrightarrow>
     levels s \<noteq> []
     \<and> length (spk (spkpos (rec_nsp s))) = length (levels s)
     \<and> length (spk (spkpos (rec_spec s))) = length (levels s)
     \<and> length (subs (spkpos (rec_nsp s))) = length (sublevels s)
     \<and> length (subs (spkpos (rec_spec s))) = length (sublevels s)
     \<and> (fcomp_bb s \<noteq> 0 \<longrightarrow> length (levels s) \<le> length (vGains s))
     \<and> (fcomp_sub s \<noteq> 0 \<and> sublevels s \<noteq> [] \<longrightarrow> vGainsSub s \<noteq> [])"

text \<open>The \<^verbatim>\<open>gain\<close> attributes of the \<^verbatim>\<open>speaker\<close> elements of the document that
  \<^verbatim>\<open>saveas\<close> writes, in document order.\<close>

definition saved_gains ::
  "('f, 'w) externals \<Rightarrow> 'f calibsession_t \<Rightarrow> xml_element \<Rightarrow> error + string list" where
  "saved_gains ext s doc_root =
     (case saveas_document ext s doc_root of
        Inl e \<Rightarrow> Inl e
      | Inr d \<Rightarrow> Inr (map (get_attribute ''gain'') (get_children ''speaker'' d)))"

text \<open>The value the specification gives for the stored gain of speaker \<open>k\<close>, in its
  words: \<open>20 * log10(gain) + L_min - L_k\<close>, with the minimum over the recorded levels.\<close>

definition spec_saved_gain :: "'f calibsession_t \<Rightarrow> nat \<Rightarrow> real" where
  "spec_saved_gain s k =
     20 * log 10 (gain (spk (spkpos (rec_spec s)) ! k)) + level_min (levels s) - levels s ! k"

text \<open>The curve the equaliser of one speaker is fitted to, in the words of the
  specification: the band levels of the measurement channels go to the power domain,
  are averaged over the measurement channels and taken back to decibels; the band
  levels of the reference channel are subtracted; the maximum of the curve is
  subtracted; the fit is made to the negative of the result.\<close>

definition spec_fresp_target :: "real list list \<Rightarrow> real list \<Rightarrow> real list" where
  "spec_fresp_target meas ref =
     (let mean = map (\<lambda>b. (\<Sum>vL\<leftarrow>meas. 10 powr (vL ! b / 10)) / real (length meas))
                   [0..<length ref];
          rel = map (\<lambda>b. 10 * log 10 (mean ! b) - ref ! b) [0..<length ref];
          norm = map (\<lambda>l. l - Max (set rel)) rel
      in map (\<lambda>l. - l) norm)"

section \<open>A small layout\<close>

text \<open>A layout with two speakers and one subwoofer, collaborators that load it, and
  recordings whose channels are given directly by their band levels on a grid of four
  bands. They serve to run the definitions above on concrete data.\<close>

definition example_spk :: "real \<Rightarrow> unit spk_descriptor" where
  "example_spk g =
     \<lparr>unitvector = (1, 0, 0), gain = g, eq = (), eqfreq = [], eqgain = [], eqstages = 0\<rparr>"

definition example_array :: "unit spk_array_t" where
  "example_array = \<lparr>spk = [example_spk 1, example_spk 1], subs = [example_spk 1]\<rparr>"

definition example_scene :: "unit scene_t" where
  "example_scene =
     \<lparr>source_objects = [\<lparr>src_mute = True, dlocation = (0, 0, 0)\<rparr>,
                         \<lparr>src_mute = True, dlocation = (0, 0, 0)\<rparr>],
      receivermod_objects =
        [\<lparr>rm_mute = False, rm_caliblevel = 2 / 100000, rm_diffusegain = 1,
          rm_libdata = Speaker_based example_array\<rparr>,
         \<lparr>rm_mute = True, rm_caliblevel = 2 / 100000, rm_diffusegain = 1,
          rm_libdata = Speaker_based example_array\<rparr>,
         \<lparr>rm_mute = False, rm_caliblevel = 2 / 100000, rm_diffusegain = 1,
          rm_libdata = Other_receiver\<rparr>],
      diff_snd_field_objects = [True]\<rparr>"

definition example_ext :: "(unit, real list) externals" where
  "example_ext =
     \<lparr>to_string = (\<lambda>x. if x = 0 then ''0'' else ''x''),
      to_string_vec = (\<lambda>v. if v = [] then [] else ''v''),
      uint_to_string = (\<lambda>n. if n = 0 then ''0'' else ''n''),
      add_scene = (\<lambda>e. Inr [example_scene]),
      add_module = (\<lambda>e. None),
      spk_array_diff_render = (\<lambda>e b. Inr example_array),
      pareq_new = (),
      optim_response = (\<lambda>n f g r q. q),
      get_bandlevels = (\<lambda>p w. ([125, 250, 500, 1000], w)),
      levelmeter_ms = (\<lambda>c w. 1),
      get_srate = 44100,
      get_spklayout_checksum = (\<lambda>e. 0),
      calibdate_now = ''2022-01-01 00:00:00''\<rparr>"

definition example_par :: "bool \<Rightarrow> nat \<Rightarrow> spk_eq_param_t" where
  "example_par sub m =
     \<lparr>fmin = (if sub then 31.25 else 62.5), fmax = (if sub then 62.5 else 4000),
      duration = (if sub then 4 else 1), prewait = 0.125, reflevel = 70,
      bandsperoctave = 3, bandoverlap = 2, max_eqstages = m, issub = sub\<rparr>"

definition example_layout :: "string \<Rightarrow> string \<Rightarrow> xml_element" where
  "example_layout n cf =
     Element n [(''calibfor'', cf)]
       [Element ''speaker'' [(''az'', ''30'')] [], Element ''speaker'' [(''az'', ''-30'')] [],
        Element ''sub'' [(''az'', ''0'')] []]"

definition example_files :: "string \<Rightarrow> string \<Rightarrow> files" where
  "example_files n cf = (\<lambda>f. if f = ''a.spk'' then Some (example_layout n cf) else None)"

definition example_session :: "unit calibsession_t" where
  "example_session =
     session_of ''a.spk'' [''system:capture_1''] (example_par False 0) (example_par True 0)
       ''type:nsp'' example_array example_scene
       (receivermod_objects example_scene ! 0) example_array
       (receivermod_objects example_scene ! 1) example_array"

text \<open>The example session after a measurement that found the levels 0 dB and 20 dB,
  followed by \<^verbatim>\<open>reset_levels\<close>: the levels are kept and all gains are 1.\<close>

definition example_reset_session :: "unit calibsession_t" where
  "example_reset_session = example_session\<lparr>levels := [0, 20]\<rparr>"

text \<open>The same session after \<open>set_active True\<close> and a level increment of zero, which
  set two of the validity flags.\<close>

definition example_modified_session :: "unit calibsession_t" where
  "example_modified_session = inc_caliblevel 0 (set_active True example_reset_session)"

text \<open>Four speakers with gain 1 and one subwoofer, for the measured levels
  70, 72, 68 and 71 dB.\<close>

definition example_array4 :: "unit spk_array_t" where
  "example_array4 =
     \<lparr>spk = [example_spk 1, example_spk 1, example_spk 1, example_spk 1],
      subs = [example_spk 1]\<rparr>"

text \<open>A recording with one measurement channel, 10 dB louder in the second band, and a
  flat reference channel.\<close>

definition example_record :: "nat \<Rightarrow> nat \<Rightarrow> real list" where
  "example_record k ch = (if ch = 0 then [0, 10, 0, 0] else [0, 0, 0, 0])"

section \<open>Calibration level: properties\<close>

lemma get_caliblevel_inc:
  "get_caliblevel (inc_caliblevel dl s) = startlevel s + (delta s + dl)"
proof -
  have "caliblevel (rec_spec (inc_caliblevel dl s)) * 50000
        = 10 powr (0.05 * (startlevel s + (delta s + dl)))"
    by (simp add: inc_caliblevel_def Let_def)
  then have "get_caliblevel (inc_caliblevel dl s)
        = 20 * log 10 (10 powr (0.05 * (startlevel s + (delta s + dl))))"
    by (simp only: get_caliblevel_def)
  then show ?thesis by simp
qed

lemma inc_caliblevel_fields:
  "startlevel (inc_caliblevel dl s) = startlevel s"
  "delta (inc_caliblevel dl s) = delta s + dl"
  by (simp_all add: inc_caliblevel_def Let_def)

lemma example_session_delta: "delta example_session = 0"
  by (simp add: example_session_def session_of_def Let_def)

text \<open>Claim C7. In a session whose accumulated delta is still zero, as the constructor
  leaves it, two calls \<open>inc_caliblevel d1\<close> and \<open>inc_caliblevel d2\<close> make
  \<open>get_caliblevel\<close> return \<open>startlevel + d1 + d2\<close>. In real arithmetic the equality is
  exact: the receiver level is \<open>2e-5 * 10 powr ((startlevel + d1 + d2) / 20)\<close> and
  \<open>2e-5 * 5e4 = 1\<close>.\<close>

theorem inc_caliblevel_roundtrip:
  "delta s = 0 \<Longrightarrow>
   get_caliblevel (inc_caliblevel d2 (inc_caliblevel d1 s)) = startlevel s + d1 + d2
   \<and> caliblevel (rec_spec (inc_caliblevel d2 (inc_caliblevel d1 s)))
       = 2 / 100000 * 10 powr ((startlevel s + (d1 + d2)) / 20)"
  by (simp add: get_caliblevel_inc inc_caliblevel_fields)
     (simp add: inc_caliblevel_def Let_def)

theorem inc_caliblevel_roundtrip_witness:
  "delta example_session = 0 \<and>
   get_caliblevel (inc_caliblevel 2 (inc_caliblevel 1 example_session))
     = startlevel example_session + 1 + 2 \<and>
   caliblevel (rec_spec (inc_caliblevel 2 (inc_caliblevel 1 example_session)))
     = 2 / 100000 * 10 powr ((startlevel example_session + (1 + 2)) / 20)"
  using inc_caliblevel_roundtrip [OF example_session_delta, of 2 1] example_session_delta
  by simp


section \<open>The calibfor attribute: properties\<close>

lemma string_find_bound: "string_find s d = Some pos \<Longrightarrow> pos + length d \<le> length s"
proof (induction s arbitrary: pos)
  case Nil
  then show ?case by (auto simp: string_find.simps[of "[]"] split: if_splits)
next
  case (Cons c cs)
  show ?case
  proof (cases "prefix d (c # cs)")
    case True
    with Cons.prems have "pos = 0" by (simp add: string_find.simps[of "c # cs"])
    with True show ?thesis using prefix_length_le by fastforce
  next
    case False
    with Cons.prems obtain p where "string_find cs d = Some p" "pos = Suc p"
      by (auto simp: string_find.simps[of "c # cs"])
    with Cons.IH[of p] show ?thesis by simp
  qed
qed

lemma string_token_loop_total: "d \<noteq> [] \<Longrightarrow> \<exists>ys. string_token_loop s d rv = Some ys"
proof (induction "length s" arbitrary: s rv rule: less_induct)
  case less
  show ?case
  proof (cases "string_find s d")
    case None
    then show ?thesis by (subst string_token_loop.simps) simp
  next
    case (Some pos)
    from string_find_bound[OF Some] less.prems
    have "length (drop (pos + length d) s) < length s"
      by (cases d) auto
    from less.hyps[OF this less.prems] show ?thesis
      by (subst string_token_loop.simps) (simp add: Some)
  qed
qed

lemma string_token_total: "d \<noteq> [] \<Longrightarrow> \<exists>ys. string_token s d = Some ys"
  by (simp add: string_token_def string_token_loop_total)

lemma set_receivertypeattr_cases:
  "(if \<forall>t\<in>set toks. \<exists>p. string_token t '':'' = Some p \<and> length p = 2
    then \<exists>e'. set_receivertypeattr cf toks e = Inr e'
    else set_receivertypeattr cf toks e = Inl (calibfor_error cf))"
proof (induction toks arbitrary: e)
  case Nil
  show ?case by simp
next
  case (Cons t ts)
  obtain p where p: "string_token t '':'' = Some p"
    using string_token_total[of "'':''" t] by auto
  show ?case
  proof (cases "length p = 2")
    case True
    with p Cons.IH[of "set_attribute (p ! 0) (p ! 1) e"] show ?thesis
      by (auto split: if_splits)
  next
    case False
    with p show ?thesis by simp
  qed
qed

lemma string_token_good:
  "string_token ''type:nsp,order:3'' '','' = Some [''type:nsp'', ''order:3'']"
  by (simp add: string_token_def string_token_loop.simps string_find.simps)

lemma string_token_bad: "string_token ''badtoken'' '','' = Some [''badtoken'']"
  by (simp add: string_token_def string_token_loop.simps string_find.simps)

lemma spec_good:
  "spec_receiver_element fname ''type:nsp,order:3'' =
     Inr (Element ''receiver'' [(''name'', ''out2''), (''mute'', ''true''), (''layout'', fname),
            (''type'', ''nsp''), (''order'', ''3'')] [])"
  by (simp add: spec_receiver_element_def string_token_good e_rcvr2_init_def set_attribute_def
      string_token_def string_token_loop.simps string_find.simps)

lemma spec_bad:
  "spec_receiver_element fname ''badtoken'' = Inl (calibfor_error ''badtoken'')"
  by (simp add: spec_receiver_element_def string_token_bad
      string_token_def string_token_loop.simps string_find.simps)

lemma spec_default:
  "spec_receiver_element fname ''type:nsp'' =
     Inr (Element ''receiver'' [(''name'', ''out2''), (''mute'', ''true''), (''layout'', fname),
            (''type'', ''nsp'')] [])"
  by (simp add: spec_receiver_element_def e_rcvr2_init_def set_attribute_def
      string_token_def string_token_loop.simps string_find.simps)

lemma example_load:
  "load_session example_ext ''a.spk'' rp p1 p2 cf e =
     Inr (session_of ''a.spk'' rp p1 p2 cf example_array example_scene
       (receivermod_objects example_scene ! 0) example_array
       (receivermod_objects example_scene ! 1) example_array)"
  by (simp add: load_session_def example_ext_def example_scene_def)


lemma load_session_calibfor:
  "load_session ext fname rp p1 p2 cf e = Inr s \<Longrightarrow> calibfor s = cf"
  by (auto simp: load_session_def session_of_def Let_def
           split: sum.splits option.splits if_splits libdata.splits)

text \<open>Claim C6. The \<^verbatim>\<open>calibfor\<close> string is split at commas, and every entry is split
  at the colon. Both splits return. If every entry gives exactly two parts the layout
  specific receiver element is built, otherwise the result is the format error, and
  the constructor fails with that error. For \<open>type:nsp,order:3\<close> the constructor goes on
  to load the scene with a receiver element that carries \<open>type = nsp\<close> and \<open>order = 3\<close>;
  for \<open>badtoken\<close> the error is raised.\<close>

theorem calibfor_grammar:
  "(\<exists>toks. string_token cf '','' = Some toks \<and>
      (if \<forall>t\<in>set toks. \<exists>p. string_token t '':'' = Some p \<and> length p = 2
       then \<exists>e. spec_receiver_element fname cf = Inr e
       else spec_receiver_element fname cf = Inl (calibfor_error cf)))
   \<and> (fs fname = Some doc \<and> get_attribute ''calibfor'' doc = cf \<and> cf \<noteq> []
        \<and> spec_receiver_element fname cf = Inl (calibfor_error cf)
       \<longrightarrow> calibsession_new ext fs fname rp p1 p2 = Inl (calibfor_error cf))
   \<and> spec_receiver_element fname ''badtoken'' = Inl (calibfor_error ''badtoken'')
   \<and> (fs fname = Some doc \<and> get_attribute ''calibfor'' doc = ''type:nsp,order:3''
       \<longrightarrow> calibsession_new ext fs fname rp p1 p2
           = load_session ext fname rp p1 p2 ''type:nsp,order:3''
               (Element ''receiver'' [(''name'', ''out2''), (''mute'', ''true''),
                  (''layout'', fname), (''type'', ''nsp''), (''order'', ''3'')] []))"
proof (intro conjI impI)
  obtain toks where t: "string_token cf '','' = Some toks"
    using string_token_total[of "'',''" cf] by auto
  show "\<exists>toks. string_token cf '','' = Some toks \<and>
      (if \<forall>t\<in>set toks. \<exists>p. string_token t '':'' = Some p \<and> length p = 2
       then \<exists>e. spec_receiver_element fname cf = Inr e
       else spec_receiver_element fname cf = Inl (calibfor_error cf))"
    using t set_receivertypeattr_cases[of toks cf "e_rcvr2_init fname"]
    by (simp add: spec_receiver_element_def)
next
  assume "fs fname = Some doc \<and> get_attribute ''calibfor'' doc = cf \<and> cf \<noteq> []
        \<and> spec_receiver_element fname cf = Inl (calibfor_error cf)"
  then show "calibsession_new ext fs fname rp p1 p2 = Inl (calibfor_error cf)"
    by (simp add: calibsession_new_def get_calibfor_def)
next
  show "spec_receiver_element fname ''badtoken'' = Inl (calibfor_error ''badtoken'')"
    by (rule spec_bad)
next
  assume "fs fname = Some doc \<and> get_attribute ''calibfor'' doc = ''type:nsp,order:3''"
  then show "calibsession_new ext fs fname rp p1 p2
           = load_session ext fname rp p1 p2 ''type:nsp,order:3''
               (Element ''receiver'' [(''name'', ''out2''), (''mute'', ''true''),
                  (''layout'', fname), (''type'', ''nsp''), (''order'', ''3'')] [])"
    by (simp add: calibsession_new_def get_calibfor_def spec_good)
qed


theorem calibfor_grammar_witness:
  "example_files ''layout'' ''badtoken'' ''a.spk'' = Some (example_layout ''layout'' ''badtoken'')
   \<and> get_attribute ''calibfor'' (example_layout ''layout'' ''badtoken'') = ''badtoken''
   \<and> calibsession_new example_ext (example_files ''layout'' ''badtoken'') ''a.spk'' []
        (example_par False 0) (example_par True 0) = Inl (calibfor_error ''badtoken'')
   \<and> string_token ''badtoken'' '','' = Some [''badtoken'']
   \<and> \<not> (\<forall>t\<in>set [''badtoken'']. \<exists>p. string_token t '':'' = Some p \<and> length p = 2)
   \<and> get_attribute ''calibfor'' (example_layout ''layout'' ''type:nsp,order:3'')
       = ''type:nsp,order:3''
   \<and> calibsession_new example_ext (example_files ''layout'' ''type:nsp,order:3'') ''a.spk'' []
        (example_par False 0) (example_par True 0)
      = Inr (session_of ''a.spk'' [] (example_par False 0) (example_par True 0)
               ''type:nsp,order:3'' example_array example_scene
               (receivermod_objects example_scene ! 0) example_array
               (receivermod_objects example_scene ! 1) example_array)"
proof -
  have f2: "example_files ''layout'' ''type:nsp,order:3'' ''a.spk''
             = Some (example_layout ''layout'' ''type:nsp,order:3'')"
    by (simp add: example_files_def)
  have g2: "get_attribute ''calibfor'' (example_layout ''layout'' ''type:nsp,order:3'')
             = ''type:nsp,order:3''"
    by (simp add: get_attribute_def example_layout_def)
  from calibfor_grammar [where cf = "''type:nsp,order:3''" and fname = "''a.spk''"
      and fs = "example_files ''layout'' ''type:nsp,order:3''"
      and doc = "example_layout ''layout'' ''type:nsp,order:3''" and ext = example_ext
      and rp = "[]" and ?p1.0 = "example_par False 0" and ?p2.0 = "example_par True 0"]
  have "calibsession_new example_ext (example_files ''layout'' ''type:nsp,order:3'') ''a.spk'' []
          (example_par False 0) (example_par True 0)
        = load_session example_ext ''a.spk'' [] (example_par False 0) (example_par True 0)
            ''type:nsp,order:3''
            (Element ''receiver'' [(''name'', ''out2''), (''mute'', ''true''),
               (''layout'', ''a.spk''), (''type'', ''nsp''), (''order'', ''3'')] [])"
    using f2 g2 by blast
  then have good: "calibsession_new example_ext (example_files ''layout'' ''type:nsp,order:3'')
          ''a.spk'' [] (example_par False 0) (example_par True 0)
      = Inr (session_of ''a.spk'' [] (example_par False 0) (example_par True 0)
               ''type:nsp,order:3'' example_array example_scene
               (receivermod_objects example_scene ! 0) example_array
               (receivermod_objects example_scene ! 1) example_array)"
    by (simp add: example_load)
  have f: "example_files ''layout'' ''badtoken'' ''a.spk''
             = Some (example_layout ''layout'' ''badtoken'')"
    by (simp add: example_files_def)
  have g: "get_attribute ''calibfor'' (example_layout ''layout'' ''badtoken'') = ''badtoken''"
    by (simp add: get_attribute_def example_layout_def)
  have n: "''badtoken'' \<noteq> []" by simp
  have b: "spec_receiver_element ''a.spk'' ''badtoken'' = Inl (calibfor_error ''badtoken'')"
    by (rule spec_bad)
  have c: "string_token ''badtoken'' '':'' = Some [''badtoken'']"
    by (simp add: string_token_def string_token_loop.simps string_find.simps)
  from calibfor_grammar [where cf = "''badtoken''" and fname = "''a.spk''"
      and fs = "example_files ''layout'' ''badtoken''"
      and doc = "example_layout ''layout'' ''badtoken''" and ext = example_ext and rp = "[]"
      and ?p1.0 = "example_par False 0" and ?p2.0 = "example_par True 0"]
  have "calibsession_new example_ext (example_files ''layout'' ''badtoken'') ''a.spk'' []
          (example_par False 0) (example_par True 0) = Inl (calibfor_error ''badtoken'')"
    using f g n b by blast
  then show ?thesis using f g c g2 good by (simp add: string_token_bad)
qed

text \<open>Claim C10. When the layout document has no \<^verbatim>\<open>calibfor\<close> attribute, the
  constructor parses \<open>type:nsp\<close> instead: the parse returns a receiver element with
  \<open>type = nsp\<close>, the constructor continues with loading the scene for that element, and
  a session it returns records \<open>type:nsp\<close> as its \<^verbatim>\<open>calibfor\<close> value.\<close>

theorem calibfor_default:
  "fs fname = Some doc \<and> get_attribute ''calibfor'' doc = [] \<longrightarrow>
     spec_receiver_element fname ''type:nsp''
       = Inr (Element ''receiver'' [(''name'', ''out2''), (''mute'', ''true''),
                (''layout'', fname), (''type'', ''nsp'')] [])
     \<and> calibsession_new ext fs fname rp p1 p2
       = load_session ext fname rp p1 p2 ''type:nsp''
           (Element ''receiver'' [(''name'', ''out2''), (''mute'', ''true''),
              (''layout'', fname), (''type'', ''nsp'')] [])
     \<and> (\<forall>s. calibsession_new ext fs fname rp p1 p2 = Inr s \<longrightarrow> calibfor s = ''type:nsp'')"
proof (intro impI)
  assume a: "fs fname = Some doc \<and> get_attribute ''calibfor'' doc = []"
  then have c: "calibsession_new ext fs fname rp p1 p2
       = load_session ext fname rp p1 p2 ''type:nsp''
           (Element ''receiver'' [(''name'', ''out2''), (''mute'', ''true''),
              (''layout'', fname), (''type'', ''nsp'')] [])"
    by (simp add: calibsession_new_def get_calibfor_def spec_default)
  then show "spec_receiver_element fname ''type:nsp''
       = Inr (Element ''receiver'' [(''name'', ''out2''), (''mute'', ''true''),
                (''layout'', fname), (''type'', ''nsp'')] [])
     \<and> calibsession_new ext fs fname rp p1 p2
       = load_session ext fname rp p1 p2 ''type:nsp''
           (Element ''receiver'' [(''name'', ''out2''), (''mute'', ''true''),
              (''layout'', fname), (''type'', ''nsp'')] [])
     \<and> (\<forall>s. calibsession_new ext fs fname rp p1 p2 = Inr s \<longrightarrow> calibfor s = ''type:nsp'')"
    using load_session_calibfor by (auto simp: spec_default)
qed

theorem calibfor_default_witness:
  "get_attribute ''calibfor'' (Element ''layout'' [] []) = []
   \<and> calibsession_new example_ext (\<lambda>f. Some (Element ''layout'' [] [])) ''a.spk''
        [''system:capture_1''] (example_par False 0) (example_par True 0)
      = Inr example_session
   \<and> calibfor example_session = ''type:nsp''"
proof -
  have g: "get_attribute ''calibfor'' (Element ''layout'' [] []) = []"
    by (simp add: get_attribute_def)
  have f: "(\<lambda>f. Some (Element ''layout'' [] [])) ''a.spk'' = Some (Element ''layout'' [] [])"
    by simp
  from calibfor_default [where fs = "\<lambda>f. Some (Element ''layout'' [] [])"
      and fname = "''a.spk''" and doc = "Element ''layout'' [] []" and ext = example_ext
      and rp = "[''system:capture_1'']" and ?p1.0 = "example_par False 0"
      and ?p2.0 = "example_par True 0"] f g
  have "calibsession_new example_ext (\<lambda>f. Some (Element ''layout'' [] [])) ''a.spk''
          [''system:capture_1''] (example_par False 0) (example_par True 0)
        = load_session example_ext ''a.spk'' [''system:capture_1''] (example_par False 0)
            (example_par True 0) ''type:nsp''
            (Element ''receiver'' [(''name'', ''out2''), (''mute'', ''true''),
               (''layout'', ''a.spk''), (''type'', ''nsp'')] [])"
    by blast
  then have "calibsession_new example_ext (\<lambda>f. Some (Element ''layout'' [] [])) ''a.spk''
          [''system:capture_1''] (example_par False 0) (example_par True 0)
        = Inr example_session"
    by (simp add: example_load example_session_def)
  moreover have "calibfor example_session = ''type:nsp''"
    by (simp add: example_session_def session_of_def Let_def)
  ultimately show ?thesis using g by simp
qed


section \<open>Mute state: properties\<close>

text \<open>\<^verbatim>\<open>set_active\<close> and \<^verbatim>\<open>set_active_diff\<close> keep at most one stimulus audible in
  every state they pass through, and leave exactly one audible when called with
  \<open>True\<close>. The broadband phase switch of \<^verbatim>\<open>get_levels\<close> keeps the two point sources
  exclusive and does not write the mute flag of the diffuse field.\<close>

lemmas mute_defs = mute_bb_def mute_subw_def mute_diff_def mute_nsp_def mute_spec_def
  reset_bb_location_def reset_subw_location_def

lemma set_active_keeps_exclusion:
  "unmuted_stimuli s \<le> 1 \<Longrightarrow> \<forall>t\<in>set (states_of (set_active_steps b) s). unmuted_stimuli t \<le> 1"
  by (cases b) (auto simp: unmuted_stimuli_def mute_defs split: if_splits)

lemma set_active_diff_keeps_exclusion:
  "unmuted_stimuli s \<le> 1 \<Longrightarrow>
   \<forall>t\<in>set (states_of (set_active_diff_steps b) s). unmuted_stimuli t \<le> 1"
  by (cases b) (auto simp: unmuted_stimuli_def mute_defs split: if_splits)

lemma set_active_true_one:
  "unmuted_stimuli (set_active True s) = 1 \<and> \<not> src_mute (src_bb (set_active True s))"
  by (simp add: set_active_def run_steps_def unmuted_stimuli_def mute_defs)

lemma set_active_diff_true_one:
  "unmuted_stimuli (set_active_diff True s) = 1 \<and> \<not> diff_mute (set_active_diff True s)"
  by (simp add: set_active_diff_def run_steps_def unmuted_stimuli_def mute_defs)

lemma broadband_phase_sources:
  "\<forall>t\<in>set (states_of broadband_phase_steps s).
     src_mute (src_bb s) \<or> src_mute (src_subw s)
     \<longrightarrow> src_mute (src_bb t) \<or> src_mute (src_subw t)"
  by (auto simp: broadband_phase_steps_def mute_defs)

lemma broadband_phase_diffuse:
  "diff_mute (run_steps broadband_phase_steps s) = diff_mute s
   \<and> \<not> src_mute (src_bb (run_steps broadband_phase_steps s))"
  by (simp add: broadband_phase_steps_def run_steps_def mute_defs)

text \<open>Claim C2. The claim asks that no two of broadband source, subwoofer source and
  diffuse field are ever audible together. The run below starts in the constructed
  session, where all three are muted, calls \<open>set_active_diff True\<close>, which leaves the
  diffuse field as the one audible stimulus, and then enters the broadband phase of
  \<^verbatim>\<open>get_levels\<close>: the broadband source is unmuted while the diffuse field still is,
  and the measurement runs with two audible stimuli.\<close>

theorem get_levels_with_diffuse_field:
  "unmuted_stimuli example_session = 0
   \<and> unmuted_stimuli (set_active_diff True example_session) = 1
   \<and> \<not> src_mute (src_bb (run_steps broadband_phase_steps (set_active_diff True example_session)))
   \<and> \<not> diff_mute (run_steps broadband_phase_steps (set_active_diff True example_session))
   \<and> unmuted_stimuli (run_steps broadband_phase_steps (set_active_diff True example_session)) = 2"
  by (simp add: broadband_phase_steps_def set_active_diff_def run_steps_def mute_defs
      unmuted_stimuli_def example_session_def session_of_def Let_def example_scene_def)


section \<open>Saving the layout: properties\<close>

lemma map_of_set_attr:
  "map_of (set_attr k v ps) k' = (if k' = k then Some v else map_of ps k')"
  by (induction ps) auto

lemma get_set_attribute:
  "get_attribute k' (set_attribute k v e) = (if k' = k then v else get_attribute k' e)"
  by (simp add: get_attribute_def set_attribute_def map_of_set_attr)

lemma name_set_attribute [simp]: "get_element_name (set_attribute k v e) = get_element_name e"
  by (simp add: set_attribute_def)

lemma children_set_attribute [simp]: "children (set_attribute k v e) = children e"
  by (simp add: set_attribute_def)

lemma get_children_set_attribute [simp]: "get_children n (set_attribute k v e) = get_children n e"
  by (simp add: get_children_def)

lemma filter_modify_first_child:
  "n \<noteq> tag \<Longrightarrow> (\<And>c. get_element_name (f c) = get_element_name c) \<Longrightarrow>
   filter (\<lambda>c. get_element_name c = tag) (modify_first_child n f cs)
     = filter (\<lambda>c. get_element_name c = tag) cs"
  by (induction cs) auto

lemma get_children_save_xml:
  "tag \<noteq> ''subcalibconfig'' \<Longrightarrow> tag \<noteq> ''speakercalibconfig'' \<Longrightarrow>
   get_children tag (save_xml ext par e) = get_children tag e"
  by (simp add: save_xml_def find_or_add_child_def get_children_def filter_modify_first_child)

lemma save_speaker_name:
  "save_speaker ext spks n vF0 vG k e = Inr e' \<Longrightarrow> get_element_name e' = get_element_name e"
  by (auto simp: save_speaker_def Let_def split: if_splits)

lemma save_speaker_gain:
  "save_speaker ext spks n vF0 vG k e = Inr e' \<Longrightarrow>
   get_attribute ''gain'' e'
     = to_string ext (20 * log 10 (gain (spks ! clamped_index k (length spks))))
   \<and> clamped_index k (length spks) < length spks"
  by (auto simp: save_speaker_def Let_def get_set_attribute split: if_splits)

lemma rewrite_children_other:
  "rewrite_children tag f k cs = Inr cs' \<Longrightarrow> \<forall>j c c'. f j c = Inr c' \<longrightarrow> get_element_name c' = get_element_name c \<Longrightarrow> tag' \<noteq> tag \<Longrightarrow>
   filter (\<lambda>c. get_element_name c = tag') cs' = filter (\<lambda>c. get_element_name c = tag') cs"
proof (induction cs arbitrary: k cs')
  case Nil
  then show ?case by simp
next
  case (Cons c cs)
  then show ?case
    by (fastforce split: if_splits sum.splits)
qed

lemma rewrite_children_same:
  "rewrite_children tag f k cs = Inr cs' \<Longrightarrow> \<forall>j c c'. f j c = Inr c' \<longrightarrow> get_element_name c' = get_element_name c \<Longrightarrow>
   length (filter (\<lambda>c. get_element_name c = tag) cs') = length (filter (\<lambda>c. get_element_name c = tag) cs)
   \<and> (\<forall>i < length (filter (\<lambda>c. get_element_name c = tag) cs).
         f (k + i) (filter (\<lambda>c. get_element_name c = tag) cs ! i)
           = Inr (filter (\<lambda>c. get_element_name c = tag) cs' ! i))"
proof (induction cs arbitrary: k cs')
  case Nil
  then show ?case by simp
next
  case (Cons c cs)
  show ?case
  proof (cases "get_element_name c = tag")
    case True
    with Cons.prems(1) obtain c1 cs1 where c1: "f k c = Inr c1"
      and r: "rewrite_children tag f (Suc k) cs = Inr cs1" and e: "cs' = c1 # cs1"
      by (auto split: sum.splits)
    from Cons.prems(2) c1 True have n1: "get_element_name c1 = tag" by auto
    from Cons.IH[OF r Cons.prems(2)] have ih:
      "length (filter (\<lambda>c. get_element_name c = tag) cs1) = length (filter (\<lambda>c. get_element_name c = tag) cs)"
      "\<forall>i < length (filter (\<lambda>c. get_element_name c = tag) cs).
         f (Suc k + i) (filter (\<lambda>c. get_element_name c = tag) cs ! i)
           = Inr (filter (\<lambda>c. get_element_name c = tag) cs1 ! i)"
      by auto
    show ?thesis
    proof (intro conjI allI impI)
      show "length (filter (\<lambda>c. get_element_name c = tag) cs') = length (filter (\<lambda>c. get_element_name c = tag) (c # cs))"
        using True n1 e ih(1) by simp
    next
      fix i assume "i < length (filter (\<lambda>c. get_element_name c = tag) (c # cs))"
      then show "f (k + i) (filter (\<lambda>c. get_element_name c = tag) (c # cs) ! i)
           = Inr (filter (\<lambda>c. get_element_name c = tag) cs' ! i)"
        using True n1 e ih(2) c1 by (cases i) auto
    qed
  next
    case False
    with Cons.prems(1) obtain cs1 where
      r: "rewrite_children tag f k cs = Inr cs1" and e: "cs' = c # cs1"
      by (auto split: sum.splits)
    from Cons.IH[OF r Cons.prems(2)] False e show ?thesis by simp
  qed
qed


lemma clamped_index_min:
  "0 < n \<Longrightarrow> n < 2 ^ 64 \<Longrightarrow> clamped_index k n = min k (n - 1)"
  by (simp add: clamped_index_def mod_if)

lemma saveas_document_speakers:
  assumes ok: "saveas_document ext s doc = Inr d"
  shows "length (get_children ''speaker'' d) = length (get_children ''speaker'' doc)
    \<and> (\<forall>k < length (get_children ''speaker'' doc).
          save_speaker ext (spk (spkpos (rec_spec s))) (fcomp_bb s) (vF s) (vGains s) k
            (get_children ''speaker'' doc ! k) = Inr (get_children ''speaker'' d ! k))"
proof -
  let ?d1 = "set_attribute ''diffusegain'' (to_string ext (get_diffusegain s))
               (set_attribute ''caliblevel'' (to_string ext (get_caliblevel s)) doc)"
  let ?f = "save_speaker ext (spk (spkpos (rec_spec s))) (fcomp_bb s) (vF s) (vGains s)"
  let ?g = "save_speaker ext (subs (spkpos (rec_spec s))) (fcomp_sub s) (vFsub s) (vGainsSub s)"
  from ok obtain cs1 cs2 where
    r1: "rewrite_children ''speaker'' ?f 0 (children doc) = Inr cs1" and
    r2: "rewrite_children ''sub'' ?g 0 cs1 = Inr cs2" and
    d: "get_children ''speaker'' d = filter (\<lambda>c. get_element_name c = ''speaker'') cs2"
    by (auto simp: saveas_document_def Let_def get_children_save_xml
             split: if_splits sum.splits)
       (simp add: get_children_def)
  have n: "\<forall>j c c'. ?g j c = Inr c' \<longrightarrow> get_element_name c' = get_element_name c"
    using save_speaker_name by blast
  have m: "\<forall>j c c'. ?f j c = Inr c' \<longrightarrow> get_element_name c' = get_element_name c"
    using save_speaker_name by blast
  have "filter (\<lambda>c. get_element_name c = ''speaker'') cs2
        = filter (\<lambda>c. get_element_name c = ''speaker'') cs1"
    using rewrite_children_other[OF r2 n, of "''speaker''"] by simp
  with d have d': "get_children ''speaker'' d = filter (\<lambda>c. get_element_name c = ''speaker'') cs1"
    by simp
  from rewrite_children_same[OF r1 m] d' show ?thesis
    by (simp add: get_children_def)
qed

lemma saveas_success:
  "saveas ext fs s fname = (None, s', fs') \<Longrightarrow>
   \<exists>doc d. fs (spkname s) = Some doc \<and> saveas_document ext s doc = Inr d
     \<and> fs' = fs(fname \<mapsto> d)
     \<and> s' = s\<lparr>gainmodified := False, levelsrecorded := False, calibrated := False,
              calibrated_diff := False\<rparr>"
  by (auto simp: saveas_def split: if_splits option.splits sum.splits)

lemmas example_defs = example_ext_def example_layout_def example_reset_session_def
  example_session_def session_of_def example_array_def example_spk_def example_scene_def
  receiver_of_def clear_eqstages_def example_par_def example_files_def

lemma example_saved_gains:
  "saved_gains example_ext example_reset_session (example_layout ''layout'' ''type:nsp'')
     = Inr [''0'', ''0'']"
  by (simp add: saved_gains_def saveas_document_def example_defs Let_def set_attribute_def
     save_speaker_def clamped_index_def get_children_def get_attribute_def
     save_xml_def find_or_add_child_def)

lemma example_spec_gain: "spec_saved_gain example_reset_session 1 = - 20"
  by (simp add: spec_saved_gain_def example_defs Let_def level_min_def)

lemma example_saveas_ok:
  "fst (saveas example_ext (example_files ''layout'' ''type:nsp'') example_reset_session ''b.spk'')
     = None"
  using example_saved_gains
  by (simp add: saveas_def saved_gains_def example_files_def split: sum.splits)
     (simp add: example_defs Let_def)

lemma example_saveas_bad:
  "saveas example_ext (example_files ''speakers'' ''type:nsp'') example_reset_session ''b.spk''
     = (Some (root_type_error ''speakers''), example_reset_session, example_files ''speakers'' ''type:nsp'')"
  by (simp add: saveas_def saveas_document_def example_defs Let_def)


lemma example_modified_flags:
  "gainmodified example_modified_session \<and> calibrated example_modified_session"
  by (simp add: example_modified_session_def inc_caliblevel_def set_active_def run_steps_def
      mute_defs Let_def)

lemma example_modified_saveas:
  "fst (saveas example_ext (example_files ''layout'' ''type:nsp'') example_modified_session ''b.spk'')
     = None"
  by (simp add: saveas_def saveas_document_def example_defs Let_def set_attribute_def
     save_speaker_def clamped_index_def get_children_def get_attribute_def
     save_xml_def find_or_add_child_def example_modified_session_def inc_caliblevel_def
     set_active_def run_steps_def mute_defs get_caliblevel_def get_diffusegain_def)


text \<open>Claim C3, as the code has it. When \<^verbatim>\<open>saveas\<close> returns normally, the document
  written to the destination has as many \<^verbatim>\<open>speaker\<close> elements as the re-opened one,
  and the \<^verbatim>\<open>gain\<close> attribute of the \<open>k\<close>-th is the formatted value of
  \<open>20 * log10(gain)\<close> for the gain of speaker \<open>min k (n - 1)\<close> of the layout specific
  receiver. The level difference \<open>L_min - L_k\<close> is not added: it is part of the value
  of the local vector \<^verbatim>\<open>gains\<close>, which is not written.\<close>

theorem saveas_speaker_gain:
  assumes "saveas ext fs s fname = (None, s', fs')"
    and "length (spk (spkpos (rec_spec s))) < 2 ^ 64"
  shows "\<exists>doc d. fs (spkname s) = Some doc \<and> fs' fname = Some d
     \<and> length (get_children ''speaker'' d) = length (get_children ''speaker'' doc)
     \<and> (\<forall>k < length (get_children ''speaker'' d).
           get_attribute ''gain'' (get_children ''speaker'' d ! k)
             = to_string ext (20 * log 10 (gain (spk (spkpos (rec_spec s))
                   ! min k (length (spk (spkpos (rec_spec s))) - 1)))))"
proof -
  from saveas_success[OF assms(1)] obtain doc d where
    f: "fs (spkname s) = Some doc" and sd: "saveas_document ext s doc = Inr d"
    and fs': "fs' = fs(fname \<mapsto> d)" by blast
  let ?spks = "spk (spkpos (rec_spec s))"
  from saveas_document_speakers[OF sd] have
    len: "length (get_children ''speaker'' d) = length (get_children ''speaker'' doc)" and
    each: "\<forall>k < length (get_children ''speaker'' doc).
          save_speaker ext ?spks (fcomp_bb s) (vF s) (vGains s) k
            (get_children ''speaker'' doc ! k) = Inr (get_children ''speaker'' d ! k)"
    by auto
  have "get_attribute ''gain'' (get_children ''speaker'' d ! k)
             = to_string ext (20 * log 10 (gain (?spks ! min k (length ?spks - 1))))"
    if k: "k < length (get_children ''speaker'' d)" for k
  proof -
    from k len each have
      "save_speaker ext ?spks (fcomp_bb s) (vF s) (vGains s) k
            (get_children ''speaker'' doc ! k) = Inr (get_children ''speaker'' d ! k)" by simp
    from save_speaker_gain[OF this] have
      g: "get_attribute ''gain'' (get_children ''speaker'' d ! k)
           = to_string ext (20 * log 10 (gain (?spks ! clamped_index k (length ?spks))))"
      and b: "clamped_index k (length ?spks) < length ?spks" by auto
    from b have "0 < length ?spks" by auto
    from clamped_index_min[OF this assms(2)] g show ?thesis by simp
  qed
  with f fs' len show ?thesis by auto
qed

theorem saveas_speaker_gain_witness:
  "length (spk (spkpos (rec_spec example_reset_session))) < 2 ^ 64
   \<and> fst (saveas example_ext (example_files ''layout'' ''type:nsp'') example_reset_session
            ''b.spk'') = None
   \<and> (\<exists>d. snd (snd (saveas example_ext (example_files ''layout'' ''type:nsp'')
                        example_reset_session ''b.spk'')) ''b.spk'' = Some d
          \<and> length (get_children ''speaker'' d) = 2
          \<and> (\<forall>k < length (get_children ''speaker'' d).
                get_attribute ''gain'' (get_children ''speaker'' d ! k) = ''0''))"
proof -
  let ?r = "saveas example_ext (example_files ''layout'' ''type:nsp'') example_reset_session
              ''b.spk''"
  obtain s' fs' where r: "?r = (None, s', fs')"
    using example_saveas_ok by (cases ?r) auto
  have n: "length (spk (spkpos (rec_spec example_reset_session))) < 2 ^ 64"
    by (simp add: example_defs Let_def)
  have g: "gain (spk (spkpos (rec_spec example_reset_session))
                  ! min i (length (spk (spkpos (rec_spec example_reset_session))) - 1)) = 1" for i
    by (cases i) (simp_all add: example_defs Let_def)
  have l: "length (get_children ''speaker'' (example_layout ''layout'' ''type:nsp'')) = 2"
    by (simp add: get_children_def example_layout_def)
  have f: "example_files ''layout'' ''type:nsp'' (spkname example_reset_session)
             = Some (example_layout ''layout'' ''type:nsp'')"
    by (simp add: example_defs Let_def)
  from saveas_speaker_gain [OF r n] f l g
  have "\<exists>d. fs' ''b.spk'' = Some d \<and> length (get_children ''speaker'' d) = 2
     \<and> (\<forall>k < length (get_children ''speaker'' d).
           get_attribute ''gain'' (get_children ''speaker'' d ! k) = ''0'')"
    by (auto simp: example_ext_def)
  with r n show ?thesis by simp
qed

text \<open>Claim C3, as stated, fails: for the session with the recorded levels 0 dB and
  20 dB and all gains 1, the stored gains are both the formatted value of 0 dB, while
  the claimed value for the second speaker is -20 dB.\<close>

theorem saveas_speaker_gain_counterexample:
  "saved_gains example_ext example_reset_session (example_layout ''layout'' ''type:nsp'')
     = Inr [to_string example_ext 0, to_string example_ext 0]
   \<and> spec_saved_gain example_reset_session 1 = - 20
   \<and> saved_gains example_ext example_reset_session (example_layout ''layout'' ''type:nsp'')
     \<noteq> Inr [to_string example_ext (spec_saved_gain example_reset_session 0),
             to_string example_ext (spec_saved_gain example_reset_session 1)]"
  using example_saved_gains example_spec_gain by (simp add: example_ext_def)

text \<open>Claim C8. If the document re-opened from the session's source path has a root
  element that is not \<open>layout\<close>, \<^verbatim>\<open>saveas\<close> throws the file type error and leaves the
  session, with its four validity flags, and the file system as they were; this is for
  a session with at least one recorded level and no more levels than speakers in
  \<^verbatim>\<open>spk_file\<close>, so that the reads before the load are in range. When \<^verbatim>\<open>saveas\<close>
  returns normally the four flags are false. \<^verbatim>\<open>save\<close> is \<^verbatim>\<open>saveas\<close> at the source
  path.\<close>

theorem saveas_root_and_flags:
  "(fs (spkname s) = Some doc \<and> get_element_name doc \<noteq> ''layout'' \<and> levels s \<noteq> []
      \<and> length (levels s) \<le> length (spk (spk_file s))
     \<longrightarrow> saveas ext fs s fname = (Some (root_type_error (get_element_name doc)), s, fs))
   \<and> (\<forall>s' fs'. saveas ext fs s fname = (None, s', fs')
        \<longrightarrow> \<not> gainmodified s' \<and> \<not> levelsrecorded s' \<and> \<not> calibrated s' \<and> \<not> calibrated_diff s')
   \<and> save ext fs s = saveas ext fs s (spkname s)"
proof (intro conjI impI allI)
  assume "fs (spkname s) = Some doc \<and> get_element_name doc \<noteq> ''layout'' \<and> levels s \<noteq> []
      \<and> length (levels s) \<le> length (spk (spk_file s))"
  then show "saveas ext fs s fname = (Some (root_type_error (get_element_name doc)), s, fs)"
    by (simp add: saveas_def saveas_document_def)
next
  fix s' fs' assume "saveas ext fs s fname = (None, s', fs')"
  from saveas_success[OF this] show "\<not> gainmodified s'" "\<not> levelsrecorded s'"
    "\<not> calibrated s'" "\<not> calibrated_diff s'" by auto
next
  show "save ext fs s = saveas ext fs s (spkname s)" by (simp add: save_def)
qed

theorem saveas_root_and_flags_witness:
  "example_files ''speakers'' ''type:nsp'' (spkname example_reset_session)
     = Some (example_layout ''speakers'' ''type:nsp'')
   \<and> get_element_name (example_layout ''speakers'' ''type:nsp'') \<noteq> ''layout''
   \<and> levels example_reset_session \<noteq> []
   \<and> length (levels example_reset_session) \<le> length (spk (spk_file example_reset_session))
   \<and> saveas example_ext (example_files ''speakers'' ''type:nsp'') example_reset_session ''b.spk''
       = (Some (root_type_error ''speakers''), example_reset_session,
          example_files ''speakers'' ''type:nsp'')
   \<and> gainmodified example_modified_session \<and> calibrated example_modified_session
   \<and> fst (saveas example_ext (example_files ''layout'' ''type:nsp'') example_modified_session
            ''b.spk'') = None
   \<and> \<not> gainmodified (fst (snd (saveas example_ext (example_files ''layout'' ''type:nsp'')
                                   example_modified_session ''b.spk'')))
   \<and> \<not> calibrated (fst (snd (saveas example_ext (example_files ''layout'' ''type:nsp'')
                                 example_modified_session ''b.spk'')))"
proof -
  have h: "example_files ''speakers'' ''type:nsp'' (spkname example_reset_session)
             = Some (example_layout ''speakers'' ''type:nsp'')
     \<and> get_element_name (example_layout ''speakers'' ''type:nsp'') \<noteq> ''layout''
     \<and> levels example_reset_session \<noteq> []
     \<and> length (levels example_reset_session) \<le> length (spk (spk_file example_reset_session))"
    by (simp add: example_defs Let_def)
  have n: "get_element_name (example_layout ''speakers'' ''type:nsp'') = ''speakers''"
    by (simp add: example_layout_def)
  from saveas_root_and_flags [of "example_files ''speakers'' ''type:nsp''"
      example_reset_session "example_layout ''speakers'' ''type:nsp''" example_ext "''b.spk''"] h n
  have bad: "saveas example_ext (example_files ''speakers'' ''type:nsp'') example_reset_session
               ''b.spk''
       = (Some (root_type_error ''speakers''), example_reset_session,
          example_files ''speakers'' ''type:nsp'')"
    by simp
  let ?r = "saveas example_ext (example_files ''layout'' ''type:nsp'') example_modified_session
              ''b.spk''"
  obtain s' fs' where r: "?r = (None, s', fs')"
    using example_modified_saveas by (cases ?r) auto
  from saveas_root_and_flags [of "example_files ''layout'' ''type:nsp''"
      example_modified_session doc example_ext "''b.spk''"] r
  have "\<not> gainmodified s' \<and> \<not> calibrated s'" by blast
  with r bad h example_modified_flags example_modified_saveas show ?thesis by simp
qed


section \<open>Gains from the levels: properties\<close>

lemma update_first_full:
  "n = length xs \<Longrightarrow> update_first n f xs = Inr (map (\<lambda>k. f k (xs ! k)) [0..<length xs])"
  by (simp add: update_first_def)

lemma update_first_Inr:
  "update_first n f xs = Inr ys \<Longrightarrow>
   n \<le> length xs \<and> length ys = length xs
   \<and> (\<forall>k<length xs. ys ! k = (if k < n then f k (xs ! k) else xs ! k))"
  by (auto simp: update_first_def split: if_splits)

lemma update_first_cong:
  "xs = ys \<Longrightarrow> update_first n f xs = update_first n f ys"
  by simp

lemma fold_min_Min: "fold (\<lambda>l m. min l m) xs (a::real) = Min (insert a (set xs))"
proof (induction xs arbitrary: a)
  case Nil
  show ?case by simp
next
  case (Cons x xs)
  have "Min (insert (min x a) (set xs)) = Min (insert a (insert x (set xs)))"
    by (cases "set xs = {}") (simp_all add: Min_insert2 min.commute min.assoc min.left_commute)
  with Cons show ?case by simp
qed

lemma level_min_Min: "lv \<noteq> [] \<Longrightarrow> level_min lv = Min (set lv)"
proof -
  assume "lv \<noteq> []"
  then have "lv ! 0 \<in> set lv" by simp
  then have "insert (lv ! 0) (set lv) = set lv" by auto
  then show ?thesis by (simp add: level_min_def fold_min_Min)
qed

lemma fold_max_gain:
  "fold (\<lambda>sp m. max m (gain sp)) xs (a::real) = Max (insert a (gain ` set xs))"
proof (induction xs arbitrary: a)
  case Nil
  show ?case by simp
next
  case (Cons x xs)
  have "Max (insert (max a (gain x)) (gain ` set xs))
        = Max (insert a (insert (gain x) (gain ` set xs)))"
    by (cases "set xs = {}") (simp_all add: max.commute max.assoc max.left_commute)
  with Cons show ?case by simp
qed

lemma update_gains_formula:
  assumes "length (spk a) = length lv" "length (subs a) = length sublv"
  shows "update_gains lm lv sublv a =
     Inr \<lparr>spk = map (\<lambda>k. (spk a ! k)\<lparr>gain := gain (spk a ! k) * 10 powr (0.05 * (lm - lv ! k))
                  / Max (insert 0 ((\<lambda>k. gain (spk a ! k) * 10 powr (0.05 * (lm - lv ! k)))
                                     ` {..<length lv}))\<rparr>) [0..<length lv],
          subs = map (\<lambda>k. (subs a ! k)\<lparr>gain := gain (subs a ! k) * 10 powr (0.05 * (lm - sublv ! k))
                  / Max (insert 0 ((\<lambda>k. gain (spk a ! k) * 10 powr (0.05 * (lm - lv ! k)))
                                     ` {..<length lv}))\<rparr>) [0..<length sublv]\<rparr>"
proof -
  let ?sp1 = "map (\<lambda>k. (spk a ! k)\<lparr>gain := gain (spk a ! k) * 10 powr (0.05 * (lm - lv ! k))\<rparr>)
                [0..<length lv]"
  have "gain ` set ?sp1 = (\<lambda>k. gain (spk a ! k) * 10 powr (0.05 * (lm - lv ! k))) ` {..<length lv}"
    by (auto simp: image_iff atLeast0LessThan)
  then have m: "fold (\<lambda>sp m. max m (gain sp)) ?sp1 0
      = Max (insert 0 ((\<lambda>k. gain (spk a ! k) * 10 powr (0.05 * (lm - lv ! k))) ` {..<length lv}))"
    by (simp only: fold_max_gain)
  show ?thesis
    using assms m
    by (simp add: update_gains_def update_first_full Let_def cong: map_cong)
qed


lemma powr_level_le_one:
  "lv \<noteq> [] \<Longrightarrow> k < length lv \<Longrightarrow> 10 powr (0.05 * (level_min lv - lv ! k)) \<le> (1::real)"
proof -
  assume a: "lv \<noteq> []" "k < length lv"
  then have "Min (set lv) \<le> lv ! k" by simp
  with a have "0.05 * (level_min lv - lv ! k) \<le> 0" by (simp add: level_min_Min)
  then have "10 powr (0.05 * (level_min lv - lv ! k)) \<le> (10::real) powr 0"
    by (intro powr_mono) simp_all
  then show ?thesis by simp
qed

lemma level_min_attained: "lv \<noteq> [] \<Longrightarrow> \<exists>k<length lv. lv ! k = level_min lv"
proof -
  assume a: "lv \<noteq> []"
  then have "Min (set lv) \<in> set lv" by (intro Min_in) simp_all
  with a show ?thesis by (auto simp: level_min_Min in_set_conv_nth)
qed

lemma scaled_max_one:
  assumes "lv \<noteq> []"
  shows "Max (insert 0 ((\<lambda>k. 10 powr (0.05 * (level_min lv - lv ! k))) ` {..<length lv}))
         = (1::real)"
proof (rule Max_eqI)
  show "finite (insert 0 ((\<lambda>k. 10 powr (0.05 * (level_min lv - lv ! k))) ` {..<length lv}))"
    by simp
next
  fix y :: real
  assume "y \<in> insert 0 ((\<lambda>k. 10 powr (0.05 * (level_min lv - lv ! k))) ` {..<length lv})"
  then show "y \<le> 1" using powr_level_le_one[OF assms] by auto
next
  from level_min_attained[OF assms] obtain k where "k < length lv" "lv ! k = level_min lv"
    by blast
  then have "(\<lambda>k. 10 powr (0.05 * (level_min lv - lv ! k))) k = (1::real)" "k \<in> {..<length lv}"
    by simp_all
  then show "1 \<in> insert 0 ((\<lambda>k. 10 powr (0.05 * (level_min lv - lv ! k))) ` {..<length lv})"
    by (metis image_eqI insertI2)
qed

text \<open>Claim C1. For at least one measured level, arrays as long as the level vectors
  and broadband gains that are all 1, the gain update of \<^verbatim>\<open>get_levels\<close> succeeds, with
  \<open>L_min\<close> the minimum of the levels. Every broadband gain becomes
  \<open>10 powr ((L_min - L_k) / 20)\<close> and every subwoofer gain is multiplied by
  \<open>10 powr ((L_min - sublevel_k) / 20)\<close>; the divisor, the maximum broadband gain, is 1.
  Afterwards the maximum broadband gain is 1 and the ratio of two broadband gains is
  \<open>10 powr ((L_j - L_k) / 20)\<close>.\<close>

theorem update_gains_normalised:
  assumes "lv \<noteq> []" and "length (spk a) = length lv" and "length (subs a) = length sublv"
    and "\<forall>k<length lv. gain (spk a ! k) = 1"
  shows "\<exists>a'. update_gains (level_min lv) lv sublv a = Inr a'
     \<and> level_min lv = Min (set lv)
     \<and> length (spk a') = length lv \<and> length (subs a') = length sublv
     \<and> (\<forall>k<length lv. gain (spk a' ! k) = 10 powr ((level_min lv - lv ! k) / 20))
     \<and> (\<forall>k<length sublv.
           gain (subs a' ! k) = gain (subs a ! k) * 10 powr ((level_min lv - sublv ! k) / 20))
     \<and> Max (gain ` set (spk a')) = 1
     \<and> (\<forall>j<length lv. \<forall>k<length lv.
           gain (spk a' ! k) / gain (spk a' ! j) = 10 powr ((lv ! j - lv ! k) / 20))"
proof -
  let ?m = "level_min lv"
  have img: "(\<lambda>k. gain (spk a ! k) * 10 powr (0.05 * (?m - lv ! k))) ` {..<length lv}
         = (\<lambda>k. 10 powr (0.05 * (?m - lv ! k))) ` {..<length lv}"
    using assms(4) by (intro image_cong) simp_all
  define a' where "a' =
     \<lparr>spk = map (\<lambda>k. (spk a ! k)\<lparr>gain := gain (spk a ! k) * 10 powr (0.05 * (?m - lv ! k)) / 1\<rparr>)
              [0..<length lv],
      subs = map (\<lambda>k. (subs a ! k)\<lparr>gain := gain (subs a ! k) * 10 powr (0.05 * (?m - sublv ! k)) / 1\<rparr>)
              [0..<length sublv]\<rparr>"
  have run: "update_gains ?m lv sublv a = Inr a'"
    unfolding a'_def
    by (simp only: update_gains_formula[OF assms(2,3)] img scaled_max_one[OF assms(1)])
  have g: "gain (spk a' ! k) = 10 powr ((?m - lv ! k) / 20)" if "k < length lv" for k
    using that assms(4) by (simp add: a'_def)
  have gs: "gain (subs a' ! k) = gain (subs a ! k) * 10 powr ((?m - sublv ! k) / 20)"
    if "k < length sublv" for k
    using that by (simp add: a'_def)
  have len: "length (spk a') = length lv" "length (subs a') = length sublv"
    by (simp_all add: a'_def)
  have set_eq: "gain ` set (spk a') = (\<lambda>k. 10 powr (0.05 * (?m - lv ! k))) ` {..<length lv}"
    using assms(4) by (auto simp: a'_def image_iff atLeast0LessThan)
  have mx: "Max (gain ` set (spk a')) = 1"
  proof (rule Max_eqI)
    show "finite (gain ` set (spk a'))" by simp
  next
    fix y assume "y \<in> gain ` set (spk a')"
    then show "y \<le> 1" using powr_level_le_one[OF assms(1)] by (auto simp: set_eq)
  next
    from level_min_attained[OF assms(1)] obtain k where k: "k < length lv" "lv ! k = ?m"
      by blast
    then have "10 powr (0.05 * (?m - lv ! k)) = (1::real)" by simp
    with k(1) show "1 \<in> gain ` set (spk a')"
      unfolding set_eq by (metis (mono_tags, lifting) image_eqI lessThan_iff)
  qed
  have ratio: "gain (spk a' ! k) / gain (spk a' ! j) = 10 powr ((lv ! j - lv ! k) / 20)"
    if "j < length lv" "k < length lv" for j k
  proof -
    have "10 powr ((?m - lv ! k) / 20) / 10 powr ((?m - lv ! j) / 20)
          = (10::real) powr ((?m - lv ! k) / 20 - (?m - lv ! j) / 20)"
      by (simp add: powr_diff)
    also have "(?m - lv ! k) / 20 - (?m - lv ! j) / 20 = (lv ! j - lv ! k) / 20"
      by (simp add: field_simps)
    finally show ?thesis using that by (simp add: g)
  qed
  from run level_min_Min[OF assms(1)] len g gs mx ratio show ?thesis by blast
qed


theorem update_gains_normalised_witness:
  "[70, 72, 68, 71] \<noteq> ([] :: real list)
   \<and> length (spk example_array4) = length [70, 72, 68, 71 :: real]
   \<and> length (subs example_array4) = length [74 :: real]
   \<and> map gain (spk example_array4) = [1, 1, 1, 1]
   \<and> level_min [70, 72, 68, 71] = 68
   \<and> (\<exists>a'. update_gains (level_min [70, 72, 68, 71]) [70, 72, 68, 71] [74] example_array4
               = Inr a'
          \<and> gain (spk a' ! 0) = 10 powr (- 2 / 20)
          \<and> gain (spk a' ! 1) = 10 powr (- 4 / 20)
          \<and> gain (spk a' ! 2) = 1
          \<and> gain (spk a' ! 3) = 10 powr (- 3 / 20)
          \<and> gain (subs a' ! 0) = 10 powr (- 6 / 20)
          \<and> Max (gain ` set (spk a')) = 1)"
proof -
  have h1: "[70, 72, 68, 71] \<noteq> ([] :: real list)" by simp
  have h2: "length (spk example_array4) = length [70, 72, 68, 71 :: real]"
    by (simp add: example_array4_def)
  have h3: "length (subs example_array4) = length [74 :: real]"
    by (simp add: example_array4_def)
  have h4: "\<forall>k<length [70, 72, 68, 71 :: real]. gain (spk example_array4 ! k) = 1"
    by (simp add: example_array4_def example_spk_def nth_Cons split: nat.splits)
  have m: "level_min [70, 72, 68, 71] = 68" by (simp add: level_min_def)
  have s0: "gain (subs example_array4 ! 0) = 1"
    by (simp add: example_array4_def example_spk_def)
  from update_gains_normalised [OF h1 h2 h3 h4] obtain a' where
    r: "update_gains (level_min [70, 72, 68, 71]) [70, 72, 68, 71] [74] example_array4 = Inr a'"
    and g: "\<forall>k<length [70, 72, 68, 71 :: real].
              gain (spk a' ! k) = 10 powr ((level_min [70, 72, 68, 71] - [70, 72, 68, 71] ! k) / 20)"
    and gs: "\<forall>k<length [74 :: real].
              gain (subs a' ! k)
                = gain (subs example_array4 ! k) * 10 powr ((level_min [70, 72, 68, 71] - [74] ! k) / 20)"
    and mx: "Max (gain ` set (spk a')) = 1"
    by blast
  from g have "gain (spk a' ! 0) = 10 powr (- 2 / 20)" "gain (spk a' ! 1) = 10 powr (- 4 / 20)"
    "gain (spk a' ! 2) = 1" "gain (spk a' ! 3) = 10 powr (- 3 / 20)"
    by (simp_all add: m)
  moreover from gs s0 have "gain (subs a' ! 0) = 10 powr (- 6 / 20)" by (simp add: m)
  moreover have "map gain (spk example_array4) = [1, 1, 1, 1]"
    by (simp add: example_array4_def example_spk_def)
  ultimately show ?thesis using h1 h2 h3 m r mx by blast
qed

section \<open>The two receivers in lock-step\<close>

lemma update_first_length:
  "update_first n f xs = Inr ys \<Longrightarrow> length ys = length xs"
  by (auto simp: update_first_def split: if_splits)

lemma reset_gains_ok:
  "length (spk a) = n \<Longrightarrow> length (subs a) = m \<Longrightarrow>
   \<exists>a'. reset_gains n m a = Inr a' \<and> length (spk a') = n \<and> length (subs a') = m"
  by (simp add: reset_gains_def update_first_full)

lemma refit_eq_length:
  "refit_eq ext n vF0 vG idx spks = Inr spks' \<Longrightarrow> length spks' = length spks"
  by (auto simp: refit_eq_def split: if_splits)

lemma refit_eq_ok_bb:
  "n \<noteq> 0 \<longrightarrow> length spks \<le> length vG \<Longrightarrow> \<exists>spks'. refit_eq ext n vF0 vG (\<lambda>k. k) spks = Inr spks'"
  by (auto simp: refit_eq_def list_ex_iff)

lemma refit_eq_ok_sub:
  "n \<noteq> 0 \<and> spks \<noteq> [] \<longrightarrow> vG \<noteq> [] \<Longrightarrow> \<exists>spks'. refit_eq ext n vF0 vG (\<lambda>k. 0) spks = Inr spks'"
  by (auto simp: refit_eq_def list_ex_iff)

lemma update_receiver_ok:
  assumes "length (spk a) = length (levels s)" "length (subs a) = length (sublevels s)"
    "fcomp_bb s \<noteq> 0 \<longrightarrow> length (levels s) \<le> length (vGains s)"
    "fcomp_sub s \<noteq> 0 \<and> sublevels s \<noteq> [] \<longrightarrow> vGainsSub s \<noteq> []"
  shows "\<exists>a'. update_receiver ext s a = Inr a' \<and> length (spk a') = length (spk a)
           \<and> length (subs a') = length (subs a)"
proof -
  from update_gains_formula[OF assms(1,2), of "lmin s"] obtain a1 where
    a1: "update_gains (lmin s) (levels s) (sublevels s) a = Inr a1"
    and l1: "length (spk a1) = length (levels s)" "length (subs a1) = length (sublevels s)"
    by simp
  from refit_eq_ok_bb[of "fcomp_bb s" "spk a1" "vGains s" ext "vF s"] assms(3) l1 obtain sp
    where sp: "refit_eq ext (fcomp_bb s) (vF s) (vGains s) (\<lambda>k. k) (spk a1) = Inr sp" by auto
  from refit_eq_ok_sub[of "fcomp_sub s" "subs a1" "vGainsSub s" ext "vFsub s"] assms(4) l1
  obtain sb where sb: "refit_eq ext (fcomp_sub s) (vFsub s) (vGainsSub s) (\<lambda>k. 0) (subs a1) = Inr sb"
    by auto
  from a1 sp sb l1 assms(1,2) refit_eq_length[OF sp] refit_eq_length[OF sb] show ?thesis
    by (simp add: update_receiver_def)
qed

lemma apply_op_lockstep:
  "lockstep s \<Longrightarrow> apply_op ext c s = Inr s' \<Longrightarrow> lockstep s'"
proof (cases c)
  case Reset_levels
  assume "lockstep s" "apply_op ext c s = Inr s'"
  with Reset_levels show ?thesis
    by (auto simp: lockstep_def reset_levels_def Let_def split: sum.splits)
next
  case Levels_to_gains
  assume "lockstep s" "apply_op ext c s = Inr s'"
  with Levels_to_gains show ?thesis
    by (auto simp: lockstep_def levels_to_gains_def update_receivers_def
             split: sum.splits if_splits)
next
  case (Inc_caliblevel dl)
  assume "lockstep s" "apply_op ext c s = Inr s'"
  with Inc_caliblevel show ?thesis
    by (auto simp: lockstep_def inc_caliblevel_def Let_def)
next
  case (Inc_diffusegain dl)
  assume "lockstep s" "apply_op ext c s = Inr s'"
  with Inc_diffusegain show ?thesis
    by (auto simp: lockstep_def inc_diffusegain_def Let_def)
qed

lemma apply_op_counts:
  assumes "counts_agree s"
  shows "\<exists>s'. apply_op ext c s = Inr s' \<and> counts_agree s'"
proof (cases c)
  case Reset_levels
  let ?n = "length (levels s)" and ?m = "length (sublevels s)"
  from assms reset_gains_ok[of "spkpos (rec_nsp s)" ?n ?m] obtain a1 where
    a1: "reset_gains ?n ?m (spkpos (rec_nsp s)) = Inr a1" "length (spk a1) = ?n" "length (subs a1) = ?m"
    by (auto simp: counts_agree_def)
  from assms reset_gains_ok[of "spkpos (rec_spec s)" ?n ?m] obtain a2 where
    a2: "reset_gains ?n ?m (spkpos (rec_spec s)) = Inr a2" "length (spk a2) = ?n" "length (subs a2) = ?m"
    by (auto simp: counts_agree_def)
  from a1 a2 assms Reset_levels show ?thesis
    by (simp add: reset_levels_def Let_def counts_agree_def)
next
  case Levels_to_gains
  let ?s = "s\<lparr>lmin := level_min (levels s), lmax := level_max (levels s),
               lmean := level_mean (levels s)\<rparr>"
  from assms have h: "length (spk (spkpos (rec_nsp ?s))) = length (levels ?s)"
     "length (subs (spkpos (rec_nsp ?s))) = length (sublevels ?s)"
     "length (spk (spkpos (rec_spec ?s))) = length (levels ?s)"
     "length (subs (spkpos (rec_spec ?s))) = length (sublevels ?s)"
     "fcomp_bb ?s \<noteq> 0 \<longrightarrow> length (levels ?s) \<le> length (vGains ?s)"
     "fcomp_sub ?s \<noteq> 0 \<and> sublevels ?s \<noteq> [] \<longrightarrow> vGainsSub ?s \<noteq> []"
    by (simp_all add: counts_agree_def)
  from update_receiver_ok[OF h(1,2,5,6), of ext] obtain a1 where
    a1: "update_receiver ext ?s (spkpos (rec_nsp ?s)) = Inr a1"
        "length (spk a1) = length (spk (spkpos (rec_nsp ?s)))"
        "length (subs a1) = length (subs (spkpos (rec_nsp ?s)))" by blast
  from update_receiver_ok[OF h(3,4,5,6), of ext] obtain a2 where
    a2: "update_receiver ext ?s (spkpos (rec_spec ?s)) = Inr a2"
        "length (spk a2) = length (spk (spkpos (rec_spec ?s)))"
        "length (subs a2) = length (subs (spkpos (rec_spec ?s)))" by blast
  from assms have ne: "levels s \<noteq> []" by (simp add: counts_agree_def)
  have "levels_to_gains ext s =
      Inr (?s\<lparr>rec_nsp := (rec_nsp ?s)\<lparr>spkpos := a1\<rparr>,
               rec_spec := (rec_spec ?s)\<lparr>spkpos := a2\<rparr>, levelsrecorded := True\<rparr>)"
    using ne a1(1) a2(1) by (simp add: levels_to_gains_def update_receivers_def)
  with assms a1 a2 Levels_to_gains show ?thesis
    by (simp add: counts_agree_def)
next
  case (Inc_caliblevel dl)
  with assms show ?thesis by (simp add: counts_agree_def inc_caliblevel_def Let_def)
next
  case (Inc_diffusegain dl)
  with assms show ?thesis by (simp add: counts_agree_def inc_diffusegain_def Let_def)
qed

lemma run_ops_lockstep:
  "lockstep s \<Longrightarrow> run_ops ext cs s = Inr s' \<Longrightarrow> lockstep s'"
proof (induction cs arbitrary: s)
  case Nil
  then show ?case by simp
next
  case (Cons c cs)
  then show ?case by (auto split: sum.splits dest: apply_op_lockstep)
qed

lemma run_ops_counts:
  "counts_agree s \<Longrightarrow> \<exists>s'. run_ops ext cs s = Inr s' \<and> counts_agree s'"
proof (induction cs arbitrary: s)
  case Nil
  then show ?case by simp
next
  case (Cons c cs)
  from apply_op_counts[OF Cons.prems, of ext c] obtain s1 where
    "apply_op ext c s = Inr s1" "counts_agree s1" by blast
  with Cons.IH[of s1] show ?case by simp
qed

text \<open>Claim C9. Let the speaker arrays, calibration levels and diffuse gains of the two
  receivers be equal. Then after every sequence of \<^verbatim>\<open>reset_levels\<close>, the gain and
  equaliser update of \<^verbatim>\<open>get_levels\<close>, \<^verbatim>\<open>inc_caliblevel\<close> and \<^verbatim>\<open>inc_diffusegain\<close> that
  runs without reading out of range they are equal again, speaker by speaker in gain
  and equaliser fields. If moreover the counts agree with the level vectors, every
  such sequence runs to its end and the counts still agree.\<close>

theorem receivers_stay_in_lockstep:
  assumes "lockstep s"
  shows "(\<forall>s'. run_ops ext cs s = Inr s' \<longrightarrow>
            lockstep s'
            \<and> (\<forall>k<length (spk (spkpos (rec_nsp s'))).
                  gain (spk (spkpos (rec_nsp s')) ! k) = gain (spk (spkpos (rec_spec s')) ! k)
                  \<and> eqfreq (spk (spkpos (rec_nsp s')) ! k) = eqfreq (spk (spkpos (rec_spec s')) ! k)
                  \<and> eqgain (spk (spkpos (rec_nsp s')) ! k) = eqgain (spk (spkpos (rec_spec s')) ! k)
                  \<and> eqstages (spk (spkpos (rec_nsp s')) ! k)
                      = eqstages (spk (spkpos (rec_spec s')) ! k)
                  \<and> eq (spk (spkpos (rec_nsp s')) ! k) = eq (spk (spkpos (rec_spec s')) ! k))
            \<and> subs (spkpos (rec_nsp s')) = subs (spkpos (rec_spec s'))
            \<and> caliblevel (rec_nsp s') = caliblevel (rec_spec s')
            \<and> diffusegain (rec_nsp s') = diffusegain (rec_spec s'))
     \<and> (counts_agree s \<longrightarrow> (\<exists>s'. run_ops ext cs s = Inr s' \<and> counts_agree s'))"
proof (intro conjI allI impI)
  fix s' assume r: "run_ops ext cs s = Inr s'"
  from run_ops_lockstep[OF assms r] show l: "lockstep s'" .
  then show "subs (spkpos (rec_nsp s')) = subs (spkpos (rec_spec s'))"
    "caliblevel (rec_nsp s') = caliblevel (rec_spec s')"
    "diffusegain (rec_nsp s') = diffusegain (rec_spec s')"
    by (simp_all add: lockstep_def)
  fix k assume "k < length (spk (spkpos (rec_nsp s')))"
  from l show "gain (spk (spkpos (rec_nsp s')) ! k) = gain (spk (spkpos (rec_spec s')) ! k)"
    "eqfreq (spk (spkpos (rec_nsp s')) ! k) = eqfreq (spk (spkpos (rec_spec s')) ! k)"
    "eqgain (spk (spkpos (rec_nsp s')) ! k) = eqgain (spk (spkpos (rec_spec s')) ! k)"
    "eqstages (spk (spkpos (rec_nsp s')) ! k) = eqstages (spk (spkpos (rec_spec s')) ! k)"
    "eq (spk (spkpos (rec_nsp s')) ! k) = eq (spk (spkpos (rec_spec s')) ! k)"
    by (simp_all add: lockstep_def)
next
  assume "counts_agree s"
  from run_ops_counts[OF this] show "\<exists>s'. run_ops ext cs s = Inr s' \<and> counts_agree s'" .
qed

theorem receivers_stay_in_lockstep_witness:
  "lockstep example_reset_session \<and> counts_agree example_reset_session
   \<and> (\<exists>s'. run_ops example_ext
              [Levels_to_gains, Inc_caliblevel 1, Reset_levels, Inc_diffusegain 2]
              example_reset_session = Inr s'
          \<and> lockstep s' \<and> counts_agree s'
          \<and> caliblevel (rec_nsp s') = caliblevel (rec_spec s')
          \<and> diffusegain (rec_nsp s') = diffusegain (rec_spec s'))"
proof -
  have l: "lockstep example_reset_session"
    by (simp add: lockstep_def example_defs Let_def)
  have c: "counts_agree example_reset_session"
    by (simp add: counts_agree_def example_defs Let_def)
  from receivers_stay_in_lockstep [OF l, of example_ext
      "[Levels_to_gains, Inc_caliblevel 1, Reset_levels, Inc_diffusegain 2]"] c
  show ?thesis using l by blast
qed


section \<open>The frequency response measurement: properties\<close>

lemma stage_count_small:
  "1 \<le> B \<Longrightarrow> B < 2 ^ 32 \<Longrightarrow> stage_count B M = min ((B - 1) div 3) M"
proof -
  assume a: "1 \<le> B" "B < 2 ^ 32"
  then have "(B mod 2 ^ 32 + 2 ^ 32 - 1) mod 2 ^ 32 = B - 1"
    by (simp add: mod_if)
  then show ?thesis by (simp only: stage_count_def)
qed

lemma fresp_curve_grid:
  "fresp_curve ext par recbuf nports = Inr (vF1, c) \<Longrightarrow>
   vF1 = fst (get_bandlevels ext par (last recbuf))"
  by (auto simp: fresp_curve_def Let_def split: sum.splits if_splits)

lemma get_fresp_loop_count:
  assumes grid: "\<forall>w. length (fst (get_bandlevels ext par w)) = B"
  shows "get_fresp_loop ext par nrec nports record_at k spks vF0 vG numflt
           = Inr (n, spks', vF', vG') \<Longrightarrow>
         numflt = 0 \<or> numflt = stage_count B (max_eqstages par) \<Longrightarrow>
         n = (if spks = [] then numflt else stage_count B (max_eqstages par))
         \<and> length spks' = length spks
         \<and> (\<forall>sp\<in>set spks'. eqstages sp = stage_count B (max_eqstages par))"
proof (induction spks arbitrary: k vF0 vG numflt n spks' vF' vG')
  case Nil
  then show ?case by simp
next
  case (Cons sp rest)
  let ?c = "stage_count B (max_eqstages par)"
  from Cons.prems(1) obtain vF1 vLmean where
    fc: "fresp_curve ext par (map (record_at k) [0..<nrec]) nports = Inr (vF1, vLmean)"
    by (auto split: sum.splits)
  from fresp_curve_grid[OF fc] grid have len: "length vF1 = B" by simp
  let ?n1 = "if numflt = 0 then stage_count (length vF1) (max_eqstages par) else numflt"
  from Cons.prems(2) len have n1: "?n1 = ?c" by auto
  from Cons.prems(1) fc obtain rest1 where
    rec: "get_fresp_loop ext par nrec nports record_at (Suc k) rest vF1 (vG @ [vLmean]) ?n1
            = Inr (n, rest1, vF', vG')"
    and sp': "spks' = sp\<lparr>eq := optim_response ext ?n1 vF1 vLmean (get_srate ext) (pareq_new ext),
                         eqfreq := vF1, eqgain := vLmean, eqstages := ?n1\<rparr> # rest1"
    by (auto simp: Let_def split: sum.splits)
  from n1 have "?n1 = 0 \<or> ?n1 = ?c" by simp
  from Cons.IH[OF rec this] have ih:
    "n = (if rest = [] then ?n1 else ?c)" "length rest1 = length rest"
    "\<forall>sp\<in>set rest1. eqstages sp = ?c" by auto
  from ih n1 sp' show ?case by auto
qed

lemma fold_max_Max: "fold (\<lambda>l m. max m l) xs (a::real) = Max (insert a (set xs))"
proof (induction xs arbitrary: a)
  case Nil
  show ?case by simp
next
  case (Cons x xs)
  have "Max (insert (max a x) (set xs)) = Max (insert a (insert x (set xs)))"
    by (cases "set xs = {}") (simp_all add: max.commute max.assoc max.left_commute)
  with Cons show ?case by simp
qed

lemma fold_max_last: "d \<noteq> [] \<Longrightarrow> fold (\<lambda>l m. max m l) d (last d) = Max (set (d :: real list))"
proof -
  assume "d \<noteq> []"
  then have "insert (last d) (set d) = set d" by auto
  then show ?thesis by (simp add: fold_max_Max)
qed

lemma channel_loop_acc:
  assumes "\<forall>w\<in>set ws. length (snd (get_bandlevels ext par w)) = B" "length acc = B" "0 < B"
  shows "channel_loop ext par ws acc =
     Inr (map (\<lambda>b. acc ! b + (\<Sum>w\<leftarrow>ws. 10 powr (0.1 * (snd (get_bandlevels ext par w) ! b))))
            [0..<B])"
  using assms
proof (induction ws arbitrary: acc)
  case Nil
  then show ?case using map_nth[of acc] by auto
next
  case (Cons w ws)
  let ?P = "map (\<lambda>l. 10 powr (0.1 * l)) (snd (get_bandlevels ext par w))"
  let ?acc = "map (\<lambda>b. acc ! b + 10 powr (0.1 * (snd (get_bandlevels ext par w) ! b))) [0..<B]"
  from Cons.prems have lw: "length (snd (get_bandlevels ext par w)) = B" by simp
  from Cons.prems lw have "add_power acc ?P = Inr (map (\<lambda>k. acc ! k + ?P ! k) [0..<B])"
    by (auto simp: add_power_def update_first_full)
  also have "map (\<lambda>k. acc ! k + ?P ! k) [0..<B] = ?acc"
    using lw by (intro map_cong) simp_all
  finally have ap: "add_power acc ?P = Inr ?acc" .
  have la: "length ?acc = B" by simp
  from Cons.prems have ws: "\<forall>w\<in>set ws. length (snd (get_bandlevels ext par w)) = B" by simp
  have "channel_loop ext par (w # ws) acc = channel_loop ext par ws ?acc"
    by (simp only: channel_loop.simps ap sum.case)
  also have "\<dots> = Inr (map (\<lambda>b. ?acc ! b
        + (\<Sum>w\<leftarrow>ws. 10 powr (0.1 * (snd (get_bandlevels ext par w) ! b)))) [0..<B])"
    by (rule Cons.IH[OF ws la Cons.prems(3)])
  also have "map (\<lambda>b. ?acc ! b
        + (\<Sum>w\<leftarrow>ws. 10 powr (0.1 * (snd (get_bandlevels ext par w) ! b)))) [0..<B]
     = map (\<lambda>b. acc ! b
        + (\<Sum>w\<leftarrow>w # ws. 10 powr (0.1 * (snd (get_bandlevels ext par w) ! b)))) [0..<B]"
    by (intro map_cong) simp_all
  finally show ?case .
qed

lemma channel_loop_start:
  assumes "\<forall>w\<in>set ws. length (snd (get_bandlevels ext par w)) = B"
  shows "channel_loop ext par ws [] =
     Inr (if ws = [] then []
          else map (\<lambda>b. \<Sum>w\<leftarrow>ws. 10 powr (0.1 * (snd (get_bandlevels ext par w) ! b))) [0..<B])"
proof (cases ws)
  case Nil
  then show ?thesis by simp
next
  case (Cons w rest)
  let ?P = "map (\<lambda>l. 10 powr (0.1 * l)) (snd (get_bandlevels ext par w))"
  from assms Cons have lw: "length (snd (get_bandlevels ext par w)) = B"
    and r: "\<forall>w\<in>set rest. length (snd (get_bandlevels ext par w)) = B" by simp_all
  show ?thesis
  proof (cases "B = 0")
    case True
    with r lw have "channel_loop ext par rest [] = Inr []"
    proof (induction rest)
      case Nil
      then show ?case by simp
    next
      case (Cons v vs)
      then show ?case by (simp add: add_power_def)
    qed
    with True lw Cons show ?thesis by (simp add: add_power_def)
  next
    case False
    then have B: "0 < B" by simp
    have lp: "length ?P = B" using lw by simp
    have "add_power [] ?P = Inr ?P" by (simp add: add_power_def)
    then have "channel_loop ext par ws [] = channel_loop ext par rest ?P"
      unfolding Cons by (simp only: channel_loop.simps sum.case)
    also have "\<dots> = Inr (map (\<lambda>b. ?P ! b
        + (\<Sum>w\<leftarrow>rest. 10 powr (0.1 * (snd (get_bandlevels ext par w) ! b)))) [0..<B])"
      by (rule channel_loop_acc[OF r lp B])
    also have "map (\<lambda>b. ?P ! b
        + (\<Sum>w\<leftarrow>rest. 10 powr (0.1 * (snd (get_bandlevels ext par w) ! b)))) [0..<B]
      = map (\<lambda>b. \<Sum>w\<leftarrow>ws. 10 powr (0.1 * (snd (get_bandlevels ext par w) ! b))) [0..<B]"
      using lw Cons by (intro map_cong) simp_all
    finally show ?thesis using Cons by simp
  qed
qed

lemma Max_shift_zero:
  fixes d :: "real list"
  assumes "d \<noteq> []"
  shows "Max (set (map (\<lambda>l. l - Max (set d)) d)) = 0"
proof (rule Max_eqI)
  show "finite (set (map (\<lambda>l. l - Max (set d)) d))" by simp
next
  fix y assume "y \<in> set (map (\<lambda>l. l - Max (set d)) d)"
  then show "y \<le> 0" by auto
next
  from assms have "Max (set d) \<in> set d" by (intro Max_in) simp_all
  then show "0 \<in> set (map (\<lambda>l. l - Max (set d)) d)" by force
qed

lemma fresp_curve_formula:
  assumes ok: "fresp_curve ext par recbuf nports = Inr (vF1, c)"
    and grid: "\<forall>w\<in>set recbuf. length (snd (get_bandlevels ext par w)) = B"
  shows "vF1 = fst (get_bandlevels ext par (last recbuf)) \<and> length c = B \<and> 0 < B
     \<and> (\<forall>b<B. c ! b =
           (snd (get_bandlevels ext par (last recbuf)) ! b
              - 10 * log 10 ((\<Sum>w\<leftarrow>take (measurement_channels nports) recbuf.
                                10 powr (0.1 * (snd (get_bandlevels ext par w) ! b)))
                             / real (length recbuf)))
           - Max ((\<lambda>b. snd (get_bandlevels ext par (last recbuf)) ! b
                       - 10 * log 10 ((\<Sum>w\<leftarrow>take (measurement_channels nports) recbuf.
                                         10 powr (0.1 * (snd (get_bandlevels ext par w) ! b)))
                                      / real (length recbuf))) ` {..<B}))
     \<and> Max (set c) = 0"
proof -
  let ?ws = "take (measurement_channels nports) recbuf"
  let ?S = "\<lambda>b. \<Sum>w\<leftarrow>?ws. 10 powr (0.1 * (snd (get_bandlevels ext par w) ! b))"
  let ?ref = "snd (get_bandlevels ext par (last recbuf))"
  let ?R = "\<lambda>b. ?ref ! b - 10 * log 10 (?S b / real (length recbuf))"
  have gws: "\<forall>w\<in>set ?ws. length (snd (get_bandlevels ext par w)) = B"
    using grid by (meson in_set_takeD)
  let ?sum = "if ?ws = [] then [] else map ?S [0..<B]"
  let ?vLmean = "map (\<lambda>l. 10 * log 10 (l / real (length recbuf))) ?sum"
  let ?d = "subtract_from_ref ?ref ?vLmean"
  from ok have ne: "recbuf \<noteq> []" and dne: "?d \<noteq> []"
    and vF: "vF1 = fst (get_bandlevels ext par (last recbuf))"
    and c: "c = map (\<lambda>l. l - fold (\<lambda>l m. max m l) ?d (last ?d)) ?d"
    by (auto simp: fresp_curve_def mean_bandlevels_def channel_loop_start[OF gws] Let_def
             split: if_splits)
  from dne have wne: "?ws \<noteq> []" and B: "0 < B"
    by (auto simp: subtract_from_ref_def split: if_splits)
  from ne grid have lref: "length ?ref = B" by simp
  have d: "?d = map ?R [0..<B]"
    using wne lref by (simp add: subtract_from_ref_def)
  have sd: "set ?d = ?R ` {..<B}"
    by (simp only: d set_map set_upt atLeast0LessThan)
  have fm: "fold (\<lambda>l m. max m l) ?d (last ?d) = Max (set ?d)"
    using dne by (rule fold_max_last)
  from c have c': "c = map (\<lambda>l. l - Max (set ?d)) ?d"
    by (simp only: fm)
  then have "c = map (\<lambda>b. ?R b - Max (?R ` {..<B})) [0..<B]"
    by (simp only: sd) (simp only: d map_map o_def)
  then have cb: "\<forall>b<B. c ! b = ?R b - Max (?R ` {..<B})" and lc: "length c = B"
    by simp_all
  have "Max (set (map (\<lambda>l. l - Max (set ?d)) ?d)) = 0"
    using dne by (rule Max_shift_zero)
  with c' have "Max (set c) = 0" by (simp only:)
  with vF lc B cb show ?thesis by blast
qed


lemma fresp_curve_channels:
  assumes ok: "fresp_curve ext par recbuf nports = Inr (vF1, c)"
    and grid: "\<forall>w\<in>set recbuf. length (snd (get_bandlevels ext par w)) = B"
  shows "recbuf \<noteq> [] \<and> measurement_channels nports \<le> length recbuf
     \<and> 0 < measurement_channels nports"
proof -
  let ?ws = "take (measurement_channels nports) recbuf"
  have gws: "\<forall>w\<in>set ?ws. length (snd (get_bandlevels ext par w)) = B"
    using grid by (meson in_set_takeD)
  from ok have "recbuf \<noteq> []" "measurement_channels nports \<le> length recbuf" "?ws \<noteq> []"
    by (auto simp: fresp_curve_def mean_bandlevels_def channel_loop_start[OF gws] Let_def
          subtract_from_ref_def split: if_splits)
  then show ?thesis by auto
qed

lemma sum_list_powr_pos:
  "ws \<noteq> [] \<Longrightarrow> 0 < (\<Sum>w\<leftarrow>ws. (10::real) powr f w)"
proof (induction ws)
  case Nil
  then show ?case by simp
next
  case (Cons w ws)
  have a: "0 \<le> (\<Sum>w\<leftarrow>ws. (10::real) powr f w)"
    by (rule sum_list_nonneg) auto
  have b: "0 < (10::real) powr f w" by simp
  from b a have "0 < 10 powr f w + (\<Sum>w\<leftarrow>ws. (10::real) powr f w)"
    by (rule add_pos_nonneg)
  then show ?case by simp
qed

lemma fresp_curve_mean:
  assumes ok: "fresp_curve ext par recbuf nports = Inr (vF1, c)"
    and grid: "\<forall>w\<in>set recbuf. length (snd (get_bandlevels ext par w)) = B"
  shows "\<forall>b<B. c ! b =
           (snd (get_bandlevels ext par (last recbuf)) ! b
              - 10 * log 10 ((\<Sum>w\<leftarrow>take (measurement_channels nports) recbuf.
                                10 powr (0.1 * (snd (get_bandlevels ext par w) ! b)))
                             / real (measurement_channels nports)))
           - Max ((\<lambda>b. snd (get_bandlevels ext par (last recbuf)) ! b
                       - 10 * log 10 ((\<Sum>w\<leftarrow>take (measurement_channels nports) recbuf.
                                         10 powr (0.1 * (snd (get_bandlevels ext par w) ! b)))
                                      / real (measurement_channels nports))) ` {..<B})"
proof -
  let ?n = "measurement_channels nports"
  let ?ws = "take ?n recbuf"
  let ?S = "\<lambda>b. \<Sum>w\<leftarrow>?ws. 10 powr (0.1 * (snd (get_bandlevels ext par w) ! b))"
  let ?ref = "snd (get_bandlevels ext par (last recbuf))"
  let ?Rc = "\<lambda>b. ?ref ! b - 10 * log 10 (?S b / real (length recbuf))"
  let ?Rt = "\<lambda>b. ?ref ! b - 10 * log 10 (?S b / real ?n)"
  define K where "K = 10 * log 10 (real (length recbuf)) - 10 * log 10 (real ?n)"
  from fresp_curve_channels[OF ok grid] have ne: "recbuf \<noteq> []" and le: "?n \<le> length recbuf"
    and n0: "0 < ?n" by auto
  from fresp_curve_formula[OF ok grid] have B: "0 < B"
    and cb: "\<forall>b<B. c ! b = ?Rc b - Max (?Rc ` {..<B})" by auto
  from n0 le have wne: "?ws \<noteq> []" by auto
  have Spos: "0 < ?S b" for b by (rule sum_list_powr_pos[OF wne])
  have l0: "0 < real (length recbuf)" using ne by simp
  have n0': "0 < real ?n" using n0 by simp
  have rel: "?Rc b = ?Rt b + K" for b
  proof -
    have d1: "log 10 (?S b / real (length recbuf)) = log 10 (?S b) - log 10 (real (length recbuf))"
      by (rule log_divide_pos[OF Spos l0])
    have d2: "log 10 (?S b / real ?n) = log 10 (?S b) - log 10 (real ?n)"
      by (rule log_divide_pos[OF Spos n0'])
    show ?thesis unfolding K_def d1 d2 by argo
  qed
  have "?Rc ` {..<B} = (\<lambda>b. ?Rt b + K) ` {..<B}"
    by (intro image_cong) (simp_all only: rel)
  also have "Max \<dots> = Max (?Rt ` {..<B}) + K"
    by (rule Max_add_commute) (use B in auto)
  finally have mx: "Max (?Rc ` {..<B}) = Max (?Rt ` {..<B}) + K" .
  show ?thesis
  proof (intro allI impI)
    fix b assume "b < B"
    with cb have "c ! b = ?Rc b - Max (?Rc ` {..<B})" by simp
    also have "\<dots> = (?Rt b + K) - (Max (?Rt ` {..<B}) + K)"
      by (simp only: mx) (simp only: rel[of b])
    also have "\<dots> = ?Rt b - Max (?Rt ` {..<B})" by argo
    finally show "c ! b = ?Rt b - Max (?Rt ` {..<B})" .
  qed
qed

lemma get_fresp_loop_fit:
  "get_fresp_loop ext par nrec nports record_at k spks vF0 vG numflt = Inr (n, spks', vF', vG')
   \<Longrightarrow> length spks' = length spks \<and> vG' = vG @ map eqgain spks'
     \<and> (\<forall>i<length spks. \<exists>vF1 c.
           fresp_curve ext par (map (record_at (k + i)) [0..<nrec]) nports = Inr (vF1, c)
           \<and> eq (spks' ! i)
               = optim_response ext (eqstages (spks' ! i)) vF1 c (get_srate ext) (pareq_new ext)
           \<and> eqfreq (spks' ! i) = vF1 \<and> eqgain (spks' ! i) = c)"
proof (induction spks arbitrary: k vF0 vG numflt n spks' vF' vG')
  case Nil
  then show ?case by simp
next
  case (Cons sp rest)
  from Cons.prems obtain vF1 vLmean where
    fc: "fresp_curve ext par (map (record_at k) [0..<nrec]) nports = Inr (vF1, vLmean)"
    by (auto split: sum.splits)
  let ?n1 = "if numflt = 0 then stage_count (length vF1) (max_eqstages par) else numflt"
  let ?sp1 = "sp\<lparr>eq := optim_response ext ?n1 vF1 vLmean (get_srate ext) (pareq_new ext),
                  eqfreq := vF1, eqgain := vLmean, eqstages := ?n1\<rparr>"
  from Cons.prems fc obtain rest1 where
    rec: "get_fresp_loop ext par nrec nports record_at (Suc k) rest vF1 (vG @ [vLmean]) ?n1
            = Inr (n, rest1, vF', vG')"
    and sp': "spks' = ?sp1 # rest1"
    by (auto simp: Let_def split: sum.splits)
  from Cons.IH[OF rec] have ih: "length rest1 = length rest"
    "vG' = (vG @ [vLmean]) @ map eqgain rest1"
    "\<forall>i<length rest. \<exists>vF1 c.
           fresp_curve ext par (map (record_at (Suc k + i)) [0..<nrec]) nports = Inr (vF1, c)
           \<and> eq (rest1 ! i)
               = optim_response ext (eqstages (rest1 ! i)) vF1 c (get_srate ext) (pareq_new ext)
           \<and> eqfreq (rest1 ! i) = vF1 \<and> eqgain (rest1 ! i) = c"
    by auto
  have "\<exists>vF1 c.
           fresp_curve ext par (map (record_at (k + i)) [0..<nrec]) nports = Inr (vF1, c)
           \<and> eq (spks' ! i)
               = optim_response ext (eqstages (spks' ! i)) vF1 c (get_srate ext) (pareq_new ext)
           \<and> eqfreq (spks' ! i) = vF1 \<and> eqgain (spks' ! i) = c"
    if "i < length (sp # rest)" for i
  proof (cases i)
    case 0
    with fc sp' show ?thesis by simp
  next
    case (Suc j)
    with that ih(3) sp' show ?thesis by simp
  qed
  with ih(1,2) sp' show ?case by simp
qed

lemma log10_5: "log 10 5 = 1 + log 10 (1/2 :: real)"
proof -
  have "log 10 (10 * (1/2 :: real)) = log 10 10 + log 10 (1/2)"
    by (rule log_mult_pos) simp_all
  then show ?thesis by simp
qed

lemma example_curve:
  "fresp_curve example_ext (example_par False 2) [[0, 10, 0, 0], [0, 0, 0, 0]] 2
     = Inr ([125, 250, 500, 1000], [0, - 10, 0, 0])"
  by (simp add: fresp_curve_def mean_bandlevels_def measurement_channels_def add_power_def
      example_ext_def subtract_from_ref_def Let_def upt_rec[of 0] log10_5)

lemma example_run:
  "get_fresp_impl example_ext (example_par False 2) 2 2 example_record [example_spk 1]
     \<lparr>src_mute = False, dlocation = (1, 0, 0)\<rparr> [] []
   = Inr (1, [\<lparr>unitvector = (1, 0, 0), gain = 1, eq = (), eqfreq = [125, 250, 500, 1000],
               eqgain = [0, - 10, 0, 0], eqstages = 1\<rparr>],
          \<lparr>src_mute = False, dlocation = (1, 0, 0)\<rparr>, [125, 250, 500, 1000], [[0, - 10, 0, 0]])"
proof -
  have r: "map (example_record 0) [0..<2] = [[0, 10, 0, 0], [0, 0, 0, 0]]"
    by (simp add: example_record_def numeral_2_eq_2)
  have g: "fst (get_bandlevels example_ext p w) = [125, 250, 500, 1000]" for p w
    by (simp add: example_ext_def)
  have m: "max_eqstages (example_par False 2) = 2" by (simp add: example_par_def)
  show ?thesis
    by (simp add: get_fresp_impl_def m r example_curve Let_def stage_count_def example_spk_def
        move_source_def)
qed

lemma example_spec_target: "spec_fresp_target [[0, 10, 0, 0]] [0, 0, 0, 0] = [10, 0, 10, 10]"
  by (simp add: spec_fresp_target_def Let_def upt_rec[of 0] numeral_eq_Suc)


text \<open>Claim C4. With \<open>max_eqstages = 0\<close> the function \<^verbatim>\<open>get_fresp_\<close> returns zero stages
  and leaves the speakers, the source and both result vectors as they were. When it
  returns for at least one speaker on a band grid of \<open>B\<close> bands, \<open>1 \<le> B < 2^32\<close>, the
  stage count is \<open>min ((B - 1) div 3) max_eqstages\<close>, within both bounds, and for a
  nonzero \<open>max_eqstages\<close> every speaker's \<^verbatim>\<open>eqstages\<close> is that count.\<close>

theorem get_fresp_stage_count:
  "(max_eqstages par = 0 \<longrightarrow>
      get_fresp_impl ext par nrec nports record_at spks src vF0 vG = Inr (0, spks, src, vF0, vG))
   \<and> (get_fresp_impl ext par nrec nports record_at spks src vF0 vG = Inr (n, spks', src', vF', vG')
        \<and> (\<forall>w. length (fst (get_bandlevels ext par w)) = B) \<and> 1 \<le> B \<and> B < 2 ^ 32
        \<and> spks \<noteq> []
      \<longrightarrow> n = min ((B - 1) div 3) (max_eqstages par)
          \<and> n \<le> (B - 1) div 3 \<and> n \<le> max_eqstages par
          \<and> (max_eqstages par \<noteq> 0 \<longrightarrow> (\<forall>sp\<in>set spks'. eqstages sp = n)))"
proof (intro conjI impI)
  assume "max_eqstages par = 0"
  then show "get_fresp_impl ext par nrec nports record_at spks src vF0 vG
               = Inr (0, spks, src, vF0, vG)"
    by (simp add: get_fresp_impl_def)
next
  assume a: "get_fresp_impl ext par nrec nports record_at spks src vF0 vG
               = Inr (n, spks', src', vF', vG')
        \<and> (\<forall>w. length (fst (get_bandlevels ext par w)) = B) \<and> 1 \<le> B \<and> B < 2 ^ 32
        \<and> spks \<noteq> []"
  then have sc: "stage_count B (max_eqstages par) = min ((B - 1) div 3) (max_eqstages par)"
    by (simp add: stage_count_small)
  have "n = min ((B - 1) div 3) (max_eqstages par)
        \<and> (max_eqstages par \<noteq> 0 \<longrightarrow> (\<forall>sp\<in>set spks'. eqstages sp = n))"
  proof (cases "max_eqstages par = 0")
    case True
    with a show ?thesis by (simp add: get_fresp_impl_def)
  next
    case False
    with a obtain vF1 vG1 where
      l: "get_fresp_loop ext par nrec nports record_at 0 spks [] [] 0 = Inr (n, spks', vF1, vG1)"
      by (auto simp: get_fresp_impl_def split: sum.splits)
    from a have g: "\<forall>w. length (fst (get_bandlevels ext par w)) = B" by simp
    from get_fresp_loop_count[OF g l] a sc show ?thesis by auto
  qed
  then show "n = min ((B - 1) div 3) (max_eqstages par)"
    "n \<le> (B - 1) div 3" "n \<le> max_eqstages par"
    "max_eqstages par \<noteq> 0 \<Longrightarrow> \<forall>sp\<in>set spks'. eqstages sp = n"
    by auto
qed



theorem get_fresp_stage_count_witness:
  "max_eqstages (example_par False 0) = 0
   \<and> get_fresp_impl example_ext (example_par False 0) 2 2 example_record [example_spk 1]
        \<lparr>src_mute = False, dlocation = (1, 0, 0)\<rparr> [] [] = Inr (0, [example_spk 1], \<lparr>src_mute = False, dlocation = (1, 0, 0)\<rparr>, [], [])
   \<and> (\<forall>w. length (fst (get_bandlevels example_ext (example_par False 2) w)) = 4)
   \<and> (\<exists>spks' src' vF' vG'.
         get_fresp_impl example_ext (example_par False 2) 2 2 example_record [example_spk 1]
           \<lparr>src_mute = False, dlocation = (1, 0, 0)\<rparr> [] [] = Inr (1, spks', src', vF', vG')
         \<and> (\<forall>sp\<in>set spks'. eqstages sp = 1))
   \<and> (1::nat) = min ((4 - 1) div 3) (max_eqstages (example_par False 2))"
proof -
  have m0: "max_eqstages (example_par False 0) = 0" by (simp add: example_par_def)
  have m2: "max_eqstages (example_par False 2) = 2" by (simp add: example_par_def)
  have g: "\<forall>w. length (fst (get_bandlevels example_ext (example_par False 2) w)) = 4"
    by (simp add: example_ext_def)
  from get_fresp_stage_count [where par = "example_par False 0" and ext = example_ext
      and nrec = 2 and nports = 2 and record_at = example_record and spks = "[example_spk 1]"
      and src = "\<lparr>src_mute = False, dlocation = (1, 0, 0)\<rparr>" and ?vF0.0 = "[]" and vG = "[]"] m0
  have a: "get_fresp_impl example_ext (example_par False 0) 2 2 example_record [example_spk 1]
        \<lparr>src_mute = False, dlocation = (1, 0, 0)\<rparr> [] [] = Inr (0, [example_spk 1], \<lparr>src_mute = False, dlocation = (1, 0, 0)\<rparr>, [], [])"
    by blast
  let ?sp = "\<lparr>unitvector = (1, 0, 0), gain = 1, eq = (), eqfreq = [125, 250, 500, 1000],
              eqgain = [0, - 10, 0, 0], eqstages = 1\<rparr>"
  from get_fresp_stage_count [where par = "example_par False 2" and ext = example_ext
      and nrec = 2 and nports = 2 and record_at = example_record and spks = "[example_spk 1]"
      and src = "\<lparr>src_mute = False, dlocation = (1, 0, 0)\<rparr>" and ?vF0.0 = "[]" and vG = "[]" and n = 1 and spks' = "[?sp]"
      and src' = "\<lparr>src_mute = False, dlocation = (1, 0, 0)\<rparr>" and vF' = "[125, 250, 500, 1000]" and vG' = "[[0, - 10, 0, 0]]"
      and B = 4] example_run g m2
  have b: "(1::nat) = min ((4 - 1) div 3) (max_eqstages (example_par False 2))
           \<and> (\<forall>sp\<in>set [?sp]. eqstages sp = 1)"
    by simp
  with example_run a m0 g show ?thesis by blast
qed

text \<open>Claim C5, as the code has it. For every speaker of a run of \<^verbatim>\<open>get_fresp_\<close> with
  nonzero \<open>max_eqstages\<close>, on recordings whose channels all have \<open>B\<close> bands: the band
  levels of the measurement channels are taken to the power domain, averaged over the
  measurement channels and taken back to decibels; this is subtracted from the band
  levels of the reference channel; the maximum of that difference over the bands is
  subtracted, so that the largest value of the curve is 0 dB. The equaliser is a new one
  fitted to this curve itself, with the speaker's stage count, and the curve is stored
  as the speaker's \<^verbatim>\<open>eqgain\<close> and in the result vector. (The code divides the summed
  power by the number of recorded buffers; the factor between that and the number of
  measurement channels is the same in every band and is removed with the maximum, see
  \<open>fresp_curve_formula\<close> and \<open>fresp_curve_mean\<close>.)\<close>

theorem get_fresp_fit_curve:
  assumes run: "get_fresp_impl ext par nrec nports record_at spks src vF0 vG
                  = Inr (n, spks', src', vF', vG')"
    and m: "max_eqstages par \<noteq> 0" and i: "i < length spks"
    and rb: "recbuf = map (record_at i) [0..<nrec]"
    and grid: "\<forall>w\<in>set recbuf. length (snd (get_bandlevels ext par w)) = B"
  shows "\<exists>c. fresp_curve ext par recbuf nports
               = Inr (fst (get_bandlevels ext par (last recbuf)), c)
     \<and> length c = B
     \<and> (\<forall>b<B. c ! b =
           (snd (get_bandlevels ext par (last recbuf)) ! b
              - 10 * log 10 ((\<Sum>w\<leftarrow>take (measurement_channels nports) recbuf.
                                10 powr (0.1 * (snd (get_bandlevels ext par w) ! b)))
                             / real (measurement_channels nports)))
           - Max ((\<lambda>b. snd (get_bandlevels ext par (last recbuf)) ! b
                       - 10 * log 10 ((\<Sum>w\<leftarrow>take (measurement_channels nports) recbuf.
                                         10 powr (0.1 * (snd (get_bandlevels ext par w) ! b)))
                                      / real (measurement_channels nports))) ` {..<B}))
     \<and> Max (set c) = 0
     \<and> eq (spks' ! i)
         = optim_response ext (eqstages (spks' ! i)) (fst (get_bandlevels ext par (last recbuf))) c
             (get_srate ext) (pareq_new ext)
     \<and> eqgain (spks' ! i) = c \<and> vG' ! i = c"
proof -
  from run m obtain vF1 where
    l: "get_fresp_loop ext par nrec nports record_at 0 spks [] [] 0 = Inr (n, spks', vF1, vG')"
    by (auto simp: get_fresp_impl_def split: sum.splits)
  from get_fresp_loop_fit[OF l] i rb obtain vFi c where
    len: "length spks' = length spks" and vg: "vG' = map eqgain spks'"
    and fc: "fresp_curve ext par recbuf nports = Inr (vFi, c)"
    and e: "eq (spks' ! i) = optim_response ext (eqstages (spks' ! i)) vFi c (get_srate ext)
                               (pareq_new ext)"
    and g: "eqgain (spks' ! i) = c"
    by auto
  from vg len i g have v: "vG' ! i = c" by simp
  from fresp_curve_formula[OF fc grid] have vF: "vFi = fst (get_bandlevels ext par (last recbuf))"
    and lc: "length c = B" and mx: "Max (set c) = 0" by auto
  from vF lc mx fresp_curve_mean[OF fc grid] fc e g v show ?thesis by blast
qed

theorem get_fresp_fit_curve_witness:
  "max_eqstages (example_par False 2) \<noteq> 0 \<and> (0::nat) < length [example_spk 1]
   \<and> [[0, 10, 0, 0], [0, 0, 0, 0]] = map (example_record 0) [0..<2]
   \<and> map (\<lambda>w. length (snd (get_bandlevels example_ext (example_par False 2) w)))
         [[0, 10, 0, 0], [0, 0, 0, 0]] = [4, 4]
   \<and> fresp_curve example_ext (example_par False 2) [[0, 10, 0, 0], [0, 0, 0, 0]] 2
       = Inr ([125, 250, 500, 1000], [0, - 10, 0, 0])
   \<and> Max (set [0, - 10, 0, 0 :: real]) = 0"
proof -
  let ?sp = "\<lparr>unitvector = (1, 0, 0), gain = 1, eq = (), eqfreq = [125, 250, 500, 1000],
              eqgain = [0, - 10, 0, 0 :: real], eqstages = 1 :: nat\<rparr>"
  have m: "max_eqstages (example_par False 2) \<noteq> 0" by (simp add: example_par_def)
  have i: "(0::nat) < length [example_spk 1]" by simp
  have r: "[[0, 10, 0, 0], [0, 0, 0, 0]] = map (example_record 0) [0..<2]"
    by (simp add: example_record_def numeral_2_eq_2)
  have g: "\<forall>w\<in>set [[0, 10, 0, 0], [0, 0, 0, 0 :: real]].
         length (snd (get_bandlevels example_ext (example_par False 2) w)) = 4"
    by (simp add: example_ext_def)
  from get_fresp_fit_curve [OF example_run m i r g] obtain c where
    "fresp_curve example_ext (example_par False 2) [[0, 10, 0, 0], [0, 0, 0, 0]] 2
       = Inr (fst (get_bandlevels example_ext (example_par False 2)
                     (last [[0, 10, 0, 0], [0, 0, 0, 0]])), c)"
    "Max (set c) = 0" "eqgain ([?sp] ! 0) = c"
    by blast
  then have "Max (set [0, - 10, 0, 0 :: real]) = 0" by simp
  moreover have "map (\<lambda>w. length (snd (get_bandlevels example_ext (example_par False 2) w)))
         [[0, 10, 0, 0], [0, 0, 0, 0]] = [4, 4]"
    by (simp add: example_ext_def)
  ultimately show ?thesis using m i r example_curve by blast
qed

text \<open>Claim C5, as stated, fails: for one measurement channel that is 10 dB louder in
  the second of four bands and a flat reference channel, the curve the equaliser is
  fitted to is 0, -10, 0, 0 dB, while the negative of the normalised measured minus
  reference curve is 10, 0, 10, 10 dB.\<close>

theorem get_fresp_fit_curve_counterexample:
  "get_fresp_impl example_ext (example_par False 2) 2 2 example_record [example_spk 1]
     \<lparr>src_mute = False, dlocation = (1, 0, 0)\<rparr> [] []
   = Inr (1, [\<lparr>unitvector = (1, 0, 0), gain = 1, eq = (), eqfreq = [125, 250, 500, 1000],
               eqgain = [0, - 10, 0, 0], eqstages = 1\<rparr>],
          \<lparr>src_mute = False, dlocation = (1, 0, 0)\<rparr>, [125, 250, 500, 1000], [[0, - 10, 0, 0]])
   \<and> spec_fresp_target [example_record 0 0] (example_record 0 1) = [10, 0, 10, 10]
   \<and> [0, - 10, 0, 0] \<noteq> spec_fresp_target [example_record 0 0] (example_record 0 1)"
  using example_run example_spec_target by (simp add: example_record_def)

end
